theory Spec2Isabelle
  imports Complex_Main "HOL-Library.Sublist" "HOL-Library.AList"
begin

section \<open>The WhatsApp weather-alert bot (src/ogindex.js, the variant of lines 1-288)\<close>

text \<open>
  The embedding follows the newest variant of the webhook handler, the one with the
  status query, the activity log and the sender guard. The handler is written as a
  function from the request, the directory and the answers of the external providers
  to the new directory, the HTTP response and the list of external calls it makes.
  Each request writes the directory between two suspension points of the handler, and
  the embedding runs the requests one at a time: a request that changes the directory
  while another one waits for a provider is outside it.
\<close>

subsection \<open>JavaScript strings\<close>

text \<open>
  A character stands for one UTF-16 code unit below 256, read as its code point
  (ASCII and Latin-1); strings with code units from 256 on are outside the embedding.
  On these strings \<open>trim\<close> strips TAB, LF, VT, FF, CR, SPACE and NO-BREAK SPACE at both
  ends, and \<open>toLowerCase\<close> works unit by unit: \<open>A..Z\<close> and the Latin-1 capitals
  (0xC0 to 0xDE but the multiplication sign 0xD7) move up by 32, every other unit stays.
\<close>

definition isWhiteSpace :: "char \<Rightarrow> bool" where
  "isWhiteSpace c =
     (c = CHR 0x09 \<or> c = CHR 0x0A \<or> c = CHR 0x0B \<or> c = CHR 0x0C \<or> c = CHR 0x0D \<or>
      c = CHR 0x20 \<or> c = CHR 0xA0)"

definition trim :: "string \<Rightarrow> string" where
  "trim s = rev (dropWhile isWhiteSpace (rev (dropWhile isWhiteSpace s)))"

definition lowerChar :: "char \<Rightarrow> char" where
  "lowerChar c =
     (let n = (of_char c :: nat)
      in if (65 \<le> n \<and> n \<le> 90) \<or> (192 \<le> n \<and> n \<le> 222 \<and> n \<noteq> 215)
         then char_of (n + 32)
         else c)"

definition toLowerCase :: "string \<Rightarrow> string" where
  "toLowerCase s = map lowerChar s"

text \<open>\<open>s.startsWith(p)\<close>.\<close>

definition startsWith :: "string \<Rightarrow> string \<Rightarrow> bool" where
  "startsWith s p = prefix p s"

text \<open>
  \<open>s.replace(pat, rep)\<close> with a string pattern: the first occurrence of \<open>pat\<close>,
  wherever it is, is replaced (the source only passes the replacement \<open>""\<close>, which has
  no \<open>$\<close> pattern).
\<close>

fun replace :: "string \<Rightarrow> string \<Rightarrow> string \<Rightarrow> string" where
  "replace [] pat rep = (if pat = [] then rep else [])"
| "replace (c # cs) pat rep =
     (if prefix pat (c # cs) then rep @ drop (length pat) (c # cs)
      else c # replace cs pat rep)"

subsection \<open>JavaScript Map: insertion-ordered, one entry per key\<close>

text \<open>
  A \<open>Map\<close> is the list of its entries in insertion order. \<open>set\<close> on a key that is
  present overwrites the value where it stands, on a new key it appends; \<open>delete\<close>
  removes the entry.
\<close>

type_synonym 'v jsMap = "(string \<times> 'v) list"

definition Map_get :: "'v jsMap \<Rightarrow> string \<Rightarrow> 'v option" where
  "Map_get m k = map_of m k"

definition Map_has :: "'v jsMap \<Rightarrow> string \<Rightarrow> bool" where
  "Map_has m k = (case map_of m k of None \<Rightarrow> False | Some _ \<Rightarrow> True)"

definition Map_set :: "'v jsMap \<Rightarrow> string \<Rightarrow> 'v \<Rightarrow> 'v jsMap" where
  "Map_set m k v = AList.update k v m"

definition Map_delete :: "'v jsMap \<Rightarrow> string \<Rightarrow> 'v jsMap" where
  "Map_delete m k = AList.delete k m"

subsection \<open>The user directory (lines 19-22)\<close>

datatype language = En | Hi | Mr

record activity_entry =
  activity :: string
  date :: string

record directory =
  subscribers :: "string set"
  userLocations :: "string jsMap"
  userPreferences :: "language jsMap"
  userActivities :: "activity_entry list jsMap"

definition emptyDirectory :: directory where
  "emptyDirectory =
     \<lparr>subscribers = {}, userLocations = [], userPreferences = [], userActivities = []\<rparr>"

subsection \<open>Weather lookup (getWeather, lines 25-57)\<close>

text \<open>
  The body of the weather provider's answer: \<open>name\<close>, \<open>main.temp\<close>, the optional
  \<open>wind\<close> object (its \<open>speed\<close>) and the \<open>weather\<close> array, each entry with \<open>main\<close> and
  \<open>description\<close>. An absent \<open>weather\<close> array behaves as the empty one.
\<close>

record owm_response =
  owm_name :: string
  owm_main_temp :: real
  owm_wind :: "real option"
  owm_weather :: "(string \<times> string) list"

text \<open>
  The alert strings, by template: the heat and cold alerts carry the temperature, the
  wind alert the wind speed, the rain and storm alerts the description.
\<close>

datatype alert =
    HeatAlert real
  | ColdAlert real
  | WindAlert real
  | RainAlert string
  | StormAlert string

record weather =
  city :: string
  temp :: real
  description :: string
  alerts :: "alert list"
  wind :: real

text \<open>
  The provider is a function of the city; \<open>None\<close> is a request that throws. A
  \<open>weather\<close> array with no first entry makes line 49 throw inside the \<open>try\<close>, so the
  lookup gives \<open>null\<close> there as well.
\<close>

definition getWeather :: "(string \<Rightarrow> owm_response option) \<Rightarrow> string \<Rightarrow> weather option" where
  "getWeather api c =
     (case api c of
        None \<Rightarrow> None
      | Some r \<Rightarrow>
          (let a0 = [];
               a1 = (if owm_main_temp r > 35 then a0 @ [HeatAlert (owm_main_temp r)] else a0);
               a2 = (if owm_main_temp r < 5 then a1 @ [ColdAlert (owm_main_temp r)] else a1);
               a3 = (case owm_wind r of
                       None \<Rightarrow> a2
                     | Some s \<Rightarrow> if s > 10 then a2 @ [WindAlert s] else a2);
               a5 = (case owm_weather r of
                       [] \<Rightarrow> a3
                     | w0 # _ \<Rightarrow>
                         (let a4 = (if fst w0 = ''Rain'' then a3 @ [RainAlert (snd w0)] else a3)
                          in if fst w0 = ''Thunderstorm'' then a4 @ [StormAlert (snd w0)] else a4))
           in case owm_weather r of
                [] \<Rightarrow> None
              | w0 # _ \<Rightarrow>
                  Some \<lparr>city = owm_name r, temp = owm_main_temp r, description = snd w0,
                        alerts = a5,
                        wind = (case owm_wind r of None \<Rightarrow> 0 | Some s \<Rightarrow> s)\<rparr>))"

subsection \<open>Messages, prompts and external calls\<close>

text \<open>
  A message text is the list of the template pieces the source concatenates; the
  pieces carry the values the templates interpolate.
\<close>

datatype segment =
    Welcome
  | Settings string language bool
  | LanguageSet language
  | LogUsage
  | Logged string
  | NoActivities
  | LoggedActivities "activity_entry list"
  | LogsCleared
  | SubscribeUsage
  | Subscribed string
  | Unsubscribed
  | WeatherUsage
  | WeatherFailed
  | CurrentWeather string real string
  | AlertLines "alert list"
  | FarmingTips string
  | HelpText
  | WeatherAlert string "alert list"

type_synonym message = "segment list"

text \<open>The two prompts given to the generative model.\<close>

datatype prompt =
    AdvicePrompt real string real language
  | TranslatePrompt message language

text \<open>What is handed to the messaging provider: a composed text or generated text.\<close>

datatype outbound = Composed message | Generated string

datatype event =
    WeatherRequest string
  | GenerateContent prompt
  | MessagesCreate string outbound
  | Delay nat

record env =
  weatherApi :: "string \<Rightarrow> owm_response option"
  generateContent :: "prompt \<Rightarrow> string option"
  now :: string

record request =
  Body :: "string option"
  From :: "string option"

record response =
  dir :: directory
  httpStatus :: nat
  httpBody :: string
  calls :: "event list"

subsection \<open>Advice, translation and delivery (lines 62-121)\<close>

text \<open>getCropAdviceAI: any failure of the model gives the fixed sentence.\<close>

definition adviceFallback :: string where
  "adviceFallback = ''Could not fetch AI advice right now.''"

definition getCropAdviceAI :: "env \<Rightarrow> weather \<Rightarrow> language \<Rightarrow> string" where
  "getCropAdviceAI e w langCode =
     (case generateContent e (AdvicePrompt (temp w) (description w) (wind w) langCode) of
        None \<Rightarrow> adviceFallback
      | Some t \<Rightarrow> t)"

text \<open>
  replyAndEnd: the text is translated when the user's language is not \<open>en\<close>; a failed
  translation sends the text as composed. A failed send is caught and logged, so the
  answer is 200 OK in every case. \<open>tr\<close> holds the calls made before.
\<close>

definition userLanguage :: "directory \<Rightarrow> string \<Rightarrow> language" where
  "userLanguage st phone =
     (case Map_get (userPreferences st) phone of None \<Rightarrow> En | Some l \<Rightarrow> l)"

definition replyAndEnd :: "env \<Rightarrow> directory \<Rightarrow> event list \<Rightarrow> string \<Rightarrow> message \<Rightarrow> response" where
  "replyAndEnd e st tr phone txt =
     (let userLang = userLanguage st phone
      in if userLang \<noteq> En then
           (case generateContent e (TranslatePrompt txt userLang) of
              Some t \<Rightarrow>
                \<lparr>dir = st, httpStatus = 200, httpBody = ''OK'',
                 calls = tr @ [GenerateContent (TranslatePrompt txt userLang),
                               MessagesCreate phone (Generated t)]\<rparr>
            | None \<Rightarrow>
                \<lparr>dir = st, httpStatus = 200, httpBody = ''OK'',
                 calls = tr @ [GenerateContent (TranslatePrompt txt userLang),
                               MessagesCreate phone (Composed txt)]\<rparr>)
         else
           \<lparr>dir = st, httpStatus = 200, httpBody = ''OK'',
            calls = tr @ [MessagesCreate phone (Composed txt)]\<rparr>)"

subsection \<open>The webhook (lines 132-252)\<close>

definition weatherReply :: "env \<Rightarrow> directory \<Rightarrow> string \<Rightarrow> string \<Rightarrow> response" where
  "weatherReply e st sender c =
     (case getWeather (weatherApi e) c of
        None \<Rightarrow> replyAndEnd e st [WeatherRequest c] sender [WeatherFailed]
      | Some w \<Rightarrow>
          (let r0 = [CurrentWeather (city w) (temp w) (description w)];
               r1 = (if length (alerts w) > 0 then r0 @ [AlertLines (alerts w)] else r0);
               userLang = userLanguage st sender;
               aiAdvice = getCropAdviceAI e w userLang;
               r2 = (if length aiAdvice > 0 then r1 @ [FarmingTips aiAdvice] else r1)
           in replyAndEnd e st
                [WeatherRequest c,
                 GenerateContent (AdvicePrompt (temp w) (description w) (wind w) userLang)]
                sender r2))"

text \<open>
  The two values the handler reads off the request (lines 133-135), for a request
  whose body is already the string of line 133 and whose sender is one string or
  missing. The handler on the form fields as they arrive, with the sender that is an
  array, is \<open>webhookHandler\<close> below.
\<close>

definition incomingMsgOf :: "request \<Rightarrow> string" where
  "incomingMsgOf req = toLowerCase (trim (case Body req of None \<Rightarrow> [] | Some b \<Rightarrow> b))"

definition fromOf :: "request \<Rightarrow> string" where
  "fromOf req = trim (replace (case From req of None \<Rightarrow> [] | Some f \<Rightarrow> f) ''whatsapp:'' [])"

text \<open>
  Line 222: the city of a weather query is the rest of the message, and the stored
  location when the rest is empty.
\<close>

definition requestedCity :: "directory \<Rightarrow> string \<Rightarrow> string \<Rightarrow> string option" where
  "requestedCity st sender msg =
     (let arg = trim (replace msg ''weather'' [])
      in if arg \<noteq> [] then Some arg else Map_get (userLocations st) sender)"

definition webhook :: "env \<Rightarrow> request \<Rightarrow> directory \<Rightarrow> response" where
  "webhook e req st =
     (let incomingMsg = incomingMsgOf req;
          sender = fromOf req
      in
      if sender = [] then
        \<lparr>dir = st, httpStatus = 400, httpBody = ''Missing sender'', calls = []\<rparr>
      else if \<not> Map_has (userPreferences st) sender then
        \<lparr>dir = st\<lparr>userPreferences := Map_set (userPreferences st) sender En\<rparr>,
         httpStatus = 200, httpBody = ''OK'',
         calls = [MessagesCreate sender (Composed [Welcome])]\<rparr>
      else if incomingMsg = ''status'' \<or> incomingMsg = ''/status'' \<or> incomingMsg = ''my status'' then
        replyAndEnd e st [] sender
          [Settings (case Map_get (userLocations st) sender of
                       None \<Rightarrow> ''Not subscribed''
                     | Some c \<Rightarrow> if c = [] then ''Not subscribed'' else c)
                    (userLanguage st sender)
                    (sender \<in> subscribers st)]
      else if incomingMsg = ''1'' \<or> incomingMsg = ''2'' \<or> incomingMsg = ''3'' then
        (let code = (if incomingMsg = ''1'' then Hi else if incomingMsg = ''2'' then Mr else En)
         in replyAndEnd e (st\<lparr>userPreferences := Map_set (userPreferences st) sender code\<rparr>)
              [] sender [LanguageSet code])
      else if startsWith incomingMsg ''log '' then
        (let act = trim (drop 4 incomingMsg)
         in if length act = 0 then replyAndEnd e st [] sender [LogUsage]
            else
              (let old = (case Map_get (userActivities st) sender of None \<Rightarrow> [] | Some l \<Rightarrow> l)
               in replyAndEnd e
                    (st\<lparr>userActivities :=
                          Map_set (userActivities st) sender
                            (old @ [\<lparr>activity = act, date = now e\<rparr>])\<rparr>)
                    [] sender [Logged act]))
      else if incomingMsg = ''view log'' then
        (let logs = (case Map_get (userActivities st) sender of None \<Rightarrow> [] | Some l \<Rightarrow> l)
         in if length logs = 0 then replyAndEnd e st [] sender [NoActivities]
            else replyAndEnd e st [] sender [LoggedActivities logs])
      else if incomingMsg = ''clear log'' then
        replyAndEnd e (st\<lparr>userActivities := Map_delete (userActivities st) sender\<rparr>)
          [] sender [LogsCleared]
      else if startsWith incomingMsg ''subscribe'' then
        (let c = trim (replace incomingMsg ''subscribe'' [])
         in if c = [] then replyAndEnd e st [] sender [SubscribeUsage]
            else replyAndEnd e
                   (st\<lparr>subscribers := insert sender (subscribers st),
                       userLocations := Map_set (userLocations st) sender c\<rparr>)
                   [] sender [Subscribed c])
      else if incomingMsg = ''unsubscribe'' then
        replyAndEnd e
          (st\<lparr>subscribers := subscribers st - {sender},
              userLocations := Map_delete (userLocations st) sender\<rparr>)
          [] sender [Unsubscribed]
      else if startsWith incomingMsg ''weather'' then
        (case requestedCity st sender incomingMsg of
           None \<Rightarrow> replyAndEnd e st [] sender [WeatherUsage]
         | Some c \<Rightarrow>
             if c = [] then replyAndEnd e st [] sender [WeatherUsage]
             else weatherReply e st sender c)
      else replyAndEnd e st [] sender [HelpText])"

subsection \<open>The form fields of the request (lines 10, 133 and 135)\<close>

text \<open>
  Under \<open>express.urlencoded({ extended: false })\<close> a form field is missing, a string,
  or, when its key is repeated, an array of strings. Line 133 takes the body through
  \<open>|| ""\<close> and \<open>toString()\<close>, which joins an array with commas. Line 135 calls
  \<open>replace\<close> on the sender with no such conversion: on an array the call throws a
  \<open>TypeError\<close> before anything is written or sent, and the handler sends no response.
\<close>

datatype formValue = Missing | Single string | Repeated "string list"

record form =
  formBody :: formValue
  formFrom :: formValue

datatype jsError = TypeError

fun joinComma :: "string list \<Rightarrow> string" where
  "joinComma [] = []"
| "joinComma [x] = x"
| "joinComma (x # y # ys) = x @ '','' @ joinComma (y # ys)"

definition bodyOf :: "formValue \<Rightarrow> string option" where
  "bodyOf v =
     (case v of Missing \<Rightarrow> None | Single b \<Rightarrow> Some b | Repeated bs \<Rightarrow> Some (joinComma bs))"

definition webhookHandler :: "env \<Rightarrow> form \<Rightarrow> directory \<Rightarrow> jsError + response" where
  "webhookHandler e f st =
     (case formFrom f of
        Repeated xs \<Rightarrow> Inl TypeError
      | Missing \<Rightarrow> Inr (webhook e \<lparr>Body = bodyOf (formBody f), From = None\<rparr> st)
      | Single s \<Rightarrow> Inr (webhook e \<lparr>Body = bodyOf (formBody f), From = Some s\<rparr> st))"

subsection \<open>The alert sweep (lines 257-269)\<close>

text \<open>
  One firing of the scheduler walks the entries of \<open>userLocations\<close> in order. The
  weather provider may answer each request differently, so it is indexed by the number
  of requests the sweep has made before.
\<close>

fun sweepLoop ::
  "(nat \<Rightarrow> string \<Rightarrow> owm_response option) \<Rightarrow> string set \<Rightarrow> nat \<Rightarrow> string jsMap \<Rightarrow> event list" where
  "sweepLoop api subs k [] = []"
| "sweepLoop api subs k ((phone, c) # rest) =
     (if phone \<in> subs then
        (case getWeather (api k) c of
           None \<Rightarrow> WeatherRequest c # sweepLoop api subs (Suc k) rest
         | Some w \<Rightarrow>
             if length (alerts w) > 0 then
               WeatherRequest c
                 # MessagesCreate phone (Composed [WeatherAlert (city w) (alerts w)])
                 # Delay 1000
                 # sweepLoop api subs (Suc k) rest
             else WeatherRequest c # sweepLoop api subs (Suc k) rest)
      else sweepLoop api subs k rest)"

definition alertSweep :: "(nat \<Rightarrow> string \<Rightarrow> owm_response option) \<Rightarrow> directory \<Rightarrow> event list" where
  "alertSweep api st = sweepLoop api (subscribers st) 0 (userLocations st)"

text \<open>The cities of the weather requests in a list of calls, in order.\<close>

fun weatherRequests :: "event list \<Rightarrow> string list" where
  "weatherRequests [] = []"
| "weatherRequests (WeatherRequest c # es) = c # weatherRequests es"
| "weatherRequests (_ # es) = weatherRequests es"

subsection \<open>Reachable directories\<close>

text \<open>
  The directory starts empty (lines 19-22) and only the webhook writes to it: every
  reachable directory is the empty one after some sequence of requests, each with its
  own provider answers.
\<close>

inductive reachable :: "directory \<Rightarrow> bool" where
  reachable_empty: "reachable emptyDirectory"
| reachable_webhook: "reachable st \<Longrightarrow> reachable (dir (webhook e req st))"

subsection \<open>The alert-threshold policy as the specification words it\<close>

text \<open>
  Five rules in the order heat, cold, wind, rain, storm; the alert list holds the alert
  of every rule that fires, in that order.
\<close>

datatype rule = Heat | Cold | Wind | Rain | Storm

fun fires :: "owm_response \<Rightarrow> rule \<Rightarrow> bool" where
  "fires r Heat = (owm_main_temp r > 35)"
| "fires r Cold = (owm_main_temp r < 5)"
| "fires r Wind = (case owm_wind r of None \<Rightarrow> False | Some s \<Rightarrow> s > 10)"
| "fires r Rain = (case owm_weather r of [] \<Rightarrow> False | w0 # _ \<Rightarrow> fst w0 = ''Rain'')"
| "fires r Storm = (case owm_weather r of [] \<Rightarrow> False | w0 # _ \<Rightarrow> fst w0 = ''Thunderstorm'')"

fun alertOf :: "owm_response \<Rightarrow> rule \<Rightarrow> alert" where
  "alertOf r Heat = HeatAlert (owm_main_temp r)"
| "alertOf r Cold = ColdAlert (owm_main_temp r)"
| "alertOf r Wind = WindAlert (case owm_wind r of None \<Rightarrow> 0 | Some s \<Rightarrow> s)"
| "alertOf r Rain = RainAlert (case owm_weather r of [] \<Rightarrow> [] | w0 # _ \<Rightarrow> snd w0)"
| "alertOf r Storm = StormAlert (case owm_weather r of [] \<Rightarrow> [] | w0 # _ \<Rightarrow> snd w0)"

definition thresholdAlerts :: "owm_response \<Rightarrow> alert list" where
  "thresholdAlerts r = map (alertOf r) (filter (fires r) [Heat, Cold, Wind, Rain, Storm])"

subsection \<open>Trimming and lower-casing as the specification words them\<close>

text \<open>
  The blanks are the code points 9 to 13, 32 and 160. The capital letters are \<open>A\<close> to
  \<open>Z\<close> (65 to 90) and the Latin-1 capitals (192 to 214 and 216 to 222); the small
  letter of a capital is 32 code points above it. Two characters are the same letter
  when they are equal or one is the small letter of the other.
\<close>

definition blank :: "char \<Rightarrow> bool" where
  "blank c \<longleftrightarrow> (of_char c :: nat) \<in> {9, 10, 11, 12, 13, 32, 160}"

definition capital :: "char \<Rightarrow> bool" where
  "capital c \<longleftrightarrow>
     (of_char c :: nat) \<in> {65..90} \<or> (of_char c :: nat) \<in> {192..214} \<or>
     (of_char c :: nat) \<in> {216..222}"

definition sameLetter :: "char \<Rightarrow> char \<Rightarrow> bool" where
  "sameLetter a b \<longleftrightarrow>
     a = b \<or> (capital a \<and> (of_char b :: nat) = of_char a + 32) \<or>
     (capital b \<and> (of_char a :: nat) = of_char b + 32)"

text \<open>
  The number of weather requests a sweep has made when it reaches entry \<open>i\<close> of
  \<open>userLocations\<close>: one for each subscribed entry before it.
\<close>

definition lookupsBefore :: "string set \<Rightarrow> string jsMap \<Rightarrow> nat \<Rightarrow> nat" where
  "lookupsBefore subs locs i = length (filter (\<lambda>p. fst p \<in> subs) (take i locs))"

subsection \<open>The invariant of the directory\<close>

text \<open>
  Each map holds one entry per key; the subscribed users are the users with a stored
  location, no stored location is empty, and every user with a location or an
  activity log has a preference entry.
\<close>

definition directoryInv :: "directory \<Rightarrow> bool" where
  "directoryInv st \<longleftrightarrow>
     distinct (map fst (userLocations st)) \<and>
     distinct (map fst (userPreferences st)) \<and>
     distinct (map fst (userActivities st)) \<and>
     (\<forall>p. p \<in> subscribers st \<longleftrightarrow> Map_has (userLocations st) p) \<and>
     (\<forall>p. Map_get (userLocations st) p \<noteq> Some []) \<and>
     (\<forall>p. Map_has (userLocations st) p \<longrightarrow> Map_has (userPreferences st) p) \<and>
     (\<forall>p. Map_has (userActivities st) p \<longrightarrow> Map_has (userPreferences st) p)"

subsection \<open>Worked inputs\<close>

definition exRainyApi :: "string \<Rightarrow> owm_response option" where
  "exRainyApi c =
     (if c = ''pune''
      then Some \<lparr>owm_name = ''Pune'', owm_main_temp = 40, owm_wind = Some 15,
                 owm_weather = [(''Rain'', ''light rain'')]\<rparr>
      else None)"

definition exNoGenerate :: "prompt \<Rightarrow> string option" where
  "exNoGenerate p = None"

definition exGenerate :: "prompt \<Rightarrow> string option" where
  "exGenerate p = Some ''generated''"

definition exNoWeather :: "string \<Rightarrow> owm_response option" where
  "exNoWeather c = None"

definition exEnv :: env where
  "exEnv = \<lparr>weatherApi = exRainyApi, generateContent = exNoGenerate,
            now = ''2025-01-01T08:00:00.000Z''\<rparr>"

definition exDownEnv :: env where
  "exDownEnv = \<lparr>weatherApi = exNoWeather, generateContent = exGenerate,
                now = ''2025-01-01T08:00:00.000Z''\<rparr>"

definition exRequest :: "string \<Rightarrow> request" where
  "exRequest b = \<lparr>Body = Some b, From = Some ''whatsapp:+911234''\<rparr>"

definition exNoSender :: request where
  "exNoSender =
     \<lparr>Body = Some ''subscribe pune'', From = Some (''whatsapp:'' @ [CHR 0xA0, CHR '' ''])\<rparr>"

definition exKnown :: directory where
  "exKnown = emptyDirectory\<lparr>userPreferences := [(''+911234'', En)]\<rparr>"

definition exHindi :: directory where
  "exHindi = emptyDirectory\<lparr>userPreferences := [(''+911234'', Hi)]\<rparr>"

definition exSubscribed :: directory where
  "exSubscribed =
     \<lparr>subscribers = {''+911234''}, userLocations = [(''+911234'', ''pune'')],
      userPreferences = [(''+911234'', En)], userActivities = []\<rparr>"

definition exFlakyGenerate :: "prompt \<Rightarrow> string option" where
  "exFlakyGenerate p =
     (case p of AdvicePrompt t d w l \<Rightarrow> None | TranslatePrompt m l \<Rightarrow> Some ''generated'')"

definition exFlakyEnv :: env where
  "exFlakyEnv = \<lparr>weatherApi = exRainyApi, generateContent = exFlakyGenerate,
                 now = ''2025-01-01T08:00:00.000Z''\<rparr>"

definition exSweepApi :: "nat \<Rightarrow> string \<Rightarrow> owm_response option" where
  "exSweepApi k = exRainyApi"

definition exTwoUsers :: directory where
  "exTwoUsers =
     \<lparr>subscribers = {''+911234'', ''+915678''},
      userLocations = [(''+911234'', ''nowhere''), (''+915678'', ''pune'')],
      userPreferences = [(''+911234'', En), (''+915678'', En)], userActivities = []\<rparr>"

definition exRepeatedFrom :: form where
  "exRepeatedFrom =
     \<lparr>formBody = Single ''subscribe pune'',
      formFrom = Repeated [''whatsapp:+911234'', ''whatsapp:+915678'']\<rparr>"

section \<open>Properties\<close>

subsection \<open>Strings\<close>

text \<open>The blanks by their code points.\<close>

lemma isWhiteSpace_code:
  "isWhiteSpace c \<longleftrightarrow> (of_char c :: nat) \<in> {9, 10, 11, 12, 13, 32, 160}"
proof -
  have h: "c = d \<longleftrightarrow> (of_char c :: nat) = of_char d" for d by simp
  show ?thesis unfolding isWhiteSpace_def by (simp del: of_char_eq_iff add: h)
qed

lemma of_char_lowerChar:
  "(of_char (lowerChar c) :: nat) =
     (if (65 \<le> (of_char c :: nat) \<and> (of_char c :: nat) \<le> 90) \<or>
         (192 \<le> (of_char c :: nat) \<and> (of_char c :: nat) \<le> 222 \<and> (of_char c :: nat) \<noteq> 215)
      then of_char c + 32 else of_char c)"
  by (auto simp: lowerChar_def Let_def)

lemma isWhiteSpace_lowerChar: "isWhiteSpace (lowerChar c) = isWhiteSpace c"
  by (auto simp: isWhiteSpace_code of_char_lowerChar)

lemma lowerChar_idem: "lowerChar (lowerChar c) = lowerChar c"
proof -
  have "(of_char (lowerChar (lowerChar c)) :: nat) = of_char (lowerChar c)"
    by (auto simp: of_char_lowerChar)
  then show ?thesis by simp
qed

lemma toLowerCase_idem: "toLowerCase (toLowerCase s) = toLowerCase s"
  by (simp add: toLowerCase_def lowerChar_idem)

lemma toLowerCase_append: "toLowerCase (s @ t) = toLowerCase s @ toLowerCase t"
  by (simp add: toLowerCase_def)

lemma toLowerCase_dropWhile:
  "toLowerCase (dropWhile isWhiteSpace s) = dropWhile isWhiteSpace (toLowerCase s)"
  by (induction s) (simp_all add: toLowerCase_def isWhiteSpace_lowerChar)

lemma toLowerCase_rev: "toLowerCase (rev s) = rev (toLowerCase s)"
  by (simp add: toLowerCase_def rev_map)

lemma toLowerCase_trim: "toLowerCase (trim s) = trim (toLowerCase s)"
  by (simp add: trim_def toLowerCase_rev toLowerCase_dropWhile)

lemma trim_eq_Nil: "trim s = [] \<longleftrightarrow> (\<forall>c \<in> set s. isWhiteSpace c)"
proof
  assume "trim s = []"
  then have "dropWhile isWhiteSpace (rev (dropWhile isWhiteSpace s)) = []"
    by (simp add: trim_def)
  then have a: "\<forall>c \<in> set (dropWhile isWhiteSpace s). isWhiteSpace c"
    by (simp add: dropWhile_eq_Nil_conv)
  have "dropWhile isWhiteSpace s = []"
  proof (cases "dropWhile isWhiteSpace s")
    case Nil then show ?thesis .
  next
    case (Cons x xs)
    then have "\<not> isWhiteSpace x" using hd_dropWhile[of isWhiteSpace s] by simp
    with a Cons show ?thesis by simp
  qed
  then show "\<forall>c \<in> set s. isWhiteSpace c" by (simp add: dropWhile_eq_Nil_conv)
next
  assume "\<forall>c \<in> set s. isWhiteSpace c"
  then show "trim s = []" by (auto simp: trim_def dest: set_dropWhileD)
qed

text \<open>Blanks around a text are dropped.\<close>

lemma dropWhile_pad: "\<forall>c \<in> set ws. isWhiteSpace c \<Longrightarrow> dropWhile isWhiteSpace (ws @ s) = dropWhile isWhiteSpace s"
  by (induction ws) simp_all

lemma trim_pad:
  assumes "\<forall>c \<in> set ws1. isWhiteSpace c" "\<forall>c \<in> set ws2. isWhiteSpace c"
  shows "trim (ws1 @ s @ ws2) = trim s"
proof -
  have 1: "dropWhile isWhiteSpace (ws1 @ s @ ws2) = dropWhile isWhiteSpace (s @ ws2)"
    using assms(1) by (rule dropWhile_pad)
  show ?thesis
  proof (cases "\<forall>c \<in> set s. isWhiteSpace c")
    case True
    then have "\<forall>c \<in> set (ws1 @ s @ ws2). isWhiteSpace c" using assms by auto
    then have "trim (ws1 @ s @ ws2) = []" by (simp only: trim_eq_Nil)
    moreover have "trim s = []" using True by (simp only: trim_eq_Nil)
    ultimately show ?thesis by simp
  next
    case False
    then have "dropWhile isWhiteSpace (s @ ws2) = dropWhile isWhiteSpace s @ ws2"
      by (auto simp: dropWhile_append1)
    then have "rev (dropWhile isWhiteSpace (ws1 @ s @ ws2)) = rev ws2 @ rev (dropWhile isWhiteSpace s)"
      using 1 by simp
    moreover have "\<forall>c \<in> set (rev ws2). isWhiteSpace c" using assms(2) by simp
    ultimately show ?thesis
      by (simp add: trim_def dropWhile_pad)
  qed
qed

text \<open>A trimmed text neither starts nor ends with a blank.\<close>

lemma trim_last: "trim s \<noteq> [] \<Longrightarrow> \<not> isWhiteSpace (last (trim s))"
proof -
  assume a: "trim s \<noteq> []"
  let ?d = "dropWhile isWhiteSpace (rev (dropWhile isWhiteSpace s))"
  from a have "?d \<noteq> []" by (simp add: trim_def)
  then have "\<not> isWhiteSpace (hd ?d)" by (rule hd_dropWhile)
  moreover have "last (trim s) = hd ?d" using \<open>?d \<noteq> []\<close> by (simp add: trim_def last_rev)
  ultimately show ?thesis by simp
qed

text \<open>A command word followed by an argument.\<close>

lemma trim_command:
  assumes "p \<noteq> []" "\<not> isWhiteSpace (hd p)" "trim x \<noteq> []"
  shows "trim (p @ x) = p @ rev (dropWhile isWhiteSpace (rev x))"
proof -
  have "dropWhile isWhiteSpace (p @ x) = p @ x"
    using assms(1,2) by (cases p) simp_all
  moreover have "\<exists>c \<in> set (rev x). \<not> isWhiteSpace c"
    using assms(3) by (simp add: trim_eq_Nil)
  then have "dropWhile isWhiteSpace (rev x @ rev p) = dropWhile isWhiteSpace (rev x) @ rev p"
    by (auto simp: dropWhile_append1)
  ultimately show ?thesis by (simp add: trim_def)
qed

lemma trim_rtrim: "trim (rev (dropWhile isWhiteSpace (rev x))) = trim x"
proof -
  obtain ws where ws: "rev x = ws @ dropWhile isWhiteSpace (rev x)" "\<forall>c \<in> set ws. isWhiteSpace c"
    using takeWhile_dropWhile_id[of isWhiteSpace "rev x"] set_takeWhileD[of _ isWhiteSpace "rev x"]
    by metis
  then have "x = [] @ rev (dropWhile isWhiteSpace (rev x)) @ rev ws"
    by (metis append_Nil rev_append rev_rev_ident)
  moreover have "\<forall>c \<in> set (rev ws). isWhiteSpace c" using ws(2) by simp
  ultimately show ?thesis using trim_pad[of "[]" "rev ws" "rev (dropWhile isWhiteSpace (rev x))"]
    by simp
qed

lemma replace_prefix: "replace (p @ x) p [] = x"
proof (cases "p @ x")
  case Nil
  then show ?thesis by simp
next
  case (Cons a l)
  have "prefix p (p @ x)" by simp
  with Cons have "prefix p (a # l)" by simp
  then have "replace (a # l) p [] = drop (length p) (a # l)" by simp
  also have "\<dots> = x" using Cons[symmetric] by simp
  finally show ?thesis using Cons by simp
qed

subsection \<open>Maps\<close>

lemma Map_has_iff: "Map_has m k \<longleftrightarrow> k \<in> fst ` set m"
  by (simp add: Map_has_def map_of_eq_None_iff split: option.splits)
     (metis map_of_eq_None_iff option.distinct(1))

lemma Map_set_new: "\<not> Map_has m k \<Longrightarrow> Map_set m k v = m @ [(k, v)]"
  unfolding Map_has_iff Map_set_def by (induction m) auto

lemma Map_get_set: "Map_get (Map_set m k v) k' = (if k' = k then Some v else Map_get m k')"
  by (simp add: Map_get_def Map_set_def update_conv')

lemma Map_get_delete: "Map_get (Map_delete m k) k' = (if k' = k then None else Map_get m k')"
  by (simp add: Map_get_def Map_delete_def delete_conv')

lemma Map_has_set: "Map_has (Map_set m k v) k' \<longleftrightarrow> k' = k \<or> Map_has m k'"
  by (auto simp: Map_has_iff Map_set_def dom_update)

lemma Map_has_delete: "Map_has (Map_delete m k) k' \<longleftrightarrow> k' \<noteq> k \<and> Map_has m k'"
  by (auto simp: Map_has_def Map_delete_def delete_conv' split: option.splits)

lemma Map_has_get: "Map_has m k \<longleftrightarrow> Map_get m k \<noteq> None"
  by (simp add: Map_has_def Map_get_def split: option.splits)

lemma distinct_Map_set: "distinct (map fst m) \<Longrightarrow> distinct (map fst (Map_set m k v))"
  by (simp add: Map_set_def distinct_update)

lemma distinct_Map_delete: "distinct (map fst m) \<Longrightarrow> distinct (map fst (Map_delete m k))"
  by (simp add: Map_delete_def distinct_delete)

lemma Map_delete_idem: "Map_delete (Map_delete m k) k = Map_delete m k"
  by (simp add: Map_delete_def delete_idem)

subsection \<open>Delivery\<close>

lemma replyAndEnd_dir: "dir (replyAndEnd e st tr phone txt) = st"
  by (simp add: replyAndEnd_def Let_def split: option.splits)

lemma replyAndEnd_status:
  "httpStatus (replyAndEnd e st tr phone txt) = 200 \<and> httpBody (replyAndEnd e st tr phone txt) = ''OK''"
  by (simp add: replyAndEnd_def Let_def split: option.splits)

lemma replyAndEnd_En:
  "userLanguage st phone = En \<Longrightarrow>
   replyAndEnd e st tr phone txt =
     \<lparr>dir = st, httpStatus = 200, httpBody = ''OK'',
      calls = tr @ [MessagesCreate phone (Composed txt)]\<rparr>"
  by (simp add: replyAndEnd_def)

lemma weatherReply_dir: "dir (weatherReply e st sender c) = st"
  by (simp add: weatherReply_def Let_def replyAndEnd_dir split: option.splits)

lemma weatherReply_status:
  "httpStatus (weatherReply e st sender c) = 200 \<and> httpBody (weatherReply e st sender c) = ''OK''"
  by (simp add: weatherReply_def Let_def replyAndEnd_status split: option.splits)

subsection \<open>Branches of the webhook\<close>

lemma webhook_missing_sender:
  "fromOf req = [] \<Longrightarrow>
   webhook e req st = \<lparr>dir = st, httpStatus = 400, httpBody = ''Missing sender'', calls = []\<rparr>"
  by (simp add: webhook_def)

lemma webhook_first_contact:
  "fromOf req \<noteq> [] \<Longrightarrow> \<not> Map_has (userPreferences st) (fromOf req) \<Longrightarrow>
   webhook e req st =
     \<lparr>dir = st\<lparr>userPreferences := Map_set (userPreferences st) (fromOf req) En\<rparr>,
      httpStatus = 200, httpBody = ''OK'',
      calls = [MessagesCreate (fromOf req) (Composed [Welcome])]\<rparr>"
  by (simp add: webhook_def Let_def)

lemma webhook_unsubscribe:
  "fromOf req \<noteq> [] \<Longrightarrow> Map_has (userPreferences st) (fromOf req) \<Longrightarrow>
   incomingMsgOf req = ''unsubscribe'' \<Longrightarrow>
   webhook e req st =
     replyAndEnd e
       (st\<lparr>subscribers := subscribers st - {fromOf req},
           userLocations := Map_delete (userLocations st) (fromOf req)\<rparr>)
       [] (fromOf req) [Unsubscribed]"
  by (simp add: webhook_def startsWith_def Let_def)

lemma webhook_subscribe:
  assumes "fromOf req \<noteq> []" "Map_has (userPreferences st) (fromOf req)"
    "startsWith (incomingMsgOf req) ''subscribe''"
  shows "webhook e req st =
     (let c = trim (replace (incomingMsgOf req) ''subscribe'' [])
      in if c = [] then replyAndEnd e st [] (fromOf req) [SubscribeUsage]
         else replyAndEnd e
                (st\<lparr>subscribers := insert (fromOf req) (subscribers st),
                    userLocations := Map_set (userLocations st) (fromOf req) c\<rparr>)
                [] (fromOf req) [Subscribed c])"
proof -
  obtain rest where m: "incomingMsgOf req = ''subscribe'' @ rest"
    using assms(3) by (auto simp: startsWith_def elim: prefixE)
  show ?thesis
    using assms(1,2) unfolding webhook_def Let_def m startsWith_def by simp
qed

lemma webhook_log:
  assumes "fromOf req \<noteq> []" "Map_has (userPreferences st) (fromOf req)"
    "startsWith (incomingMsgOf req) ''log ''"
  shows "webhook e req st =
     (let act = trim (drop 4 (incomingMsgOf req))
      in if length act = 0 then replyAndEnd e st [] (fromOf req) [LogUsage]
         else
           (let old = (case Map_get (userActivities st) (fromOf req) of None \<Rightarrow> [] | Some l \<Rightarrow> l)
            in replyAndEnd e
                 (st\<lparr>userActivities :=
                       Map_set (userActivities st) (fromOf req)
                         (old @ [\<lparr>activity = act, date = now e\<rparr>])\<rparr>)
                 [] (fromOf req) [Logged act]))"
proof -
  obtain rest where m: "incomingMsgOf req = ''log '' @ rest"
    using assms(3) by (auto simp: startsWith_def elim: prefixE)
  show ?thesis
    using assms(1,2) unfolding webhook_def Let_def m startsWith_def by simp
qed

lemma webhook_weather:
  assumes "fromOf req \<noteq> []" "Map_has (userPreferences st) (fromOf req)"
    "startsWith (incomingMsgOf req) ''weather''"
  shows "webhook e req st =
     (case requestedCity st (fromOf req) (incomingMsgOf req) of
        None \<Rightarrow> replyAndEnd e st [] (fromOf req) [WeatherUsage]
      | Some c \<Rightarrow>
          if c = [] then replyAndEnd e st [] (fromOf req) [WeatherUsage]
          else weatherReply e st (fromOf req) c)"
proof -
  obtain rest where m: "incomingMsgOf req = ''weather'' @ rest"
    using assms(3) by (auto simp: startsWith_def elim: prefixE)
  show ?thesis
    using assms(1,2) unfolding webhook_def Let_def m startsWith_def by simp
qed

subsection \<open>The directory invariant holds in every reachable directory\<close>

lemma webhook_inv: "directoryInv st \<Longrightarrow> directoryInv (dir (webhook e req st))"
  unfolding webhook_def Let_def
  by (auto simp: directoryInv_def replyAndEnd_dir weatherReply_dir Map_get_set Map_get_delete
      Map_has_set Map_has_delete distinct_Map_set distinct_Map_delete split: option.splits)

lemma reachable_inv: "reachable st \<Longrightarrow> directoryInv st"
proof (induction rule: reachable.induct)
  case reachable_empty
  show ?case by (simp add: directoryInv_def emptyDirectory_def Map_has_def Map_get_def)
next
  case (reachable_webhook st e req)
  then show ?case by (simp add: webhook_inv)
qed

subsection \<open>A reachable directory with one subscribed user\<close>

lemma exRequest_from: "fromOf (exRequest b) = ''+911234''"
  by (simp add: fromOf_def exRequest_def trim_def isWhiteSpace_def)

lemma ex_first: "dir (webhook exEnv (exRequest ''Hello'') emptyDirectory) = exKnown"
  by (simp add: webhook_first_contact exRequest_from Map_has_def Map_set_def emptyDirectory_def exKnown_def)

lemma ex_msg_subscribe: "incomingMsgOf (exRequest '' Subscribe Pune '') = ''subscribe pune''"
  by (simp add: incomingMsgOf_def exRequest_def toLowerCase_def lowerChar_def char_of_def bit_0 trim_def isWhiteSpace_def)

lemma ex_second: "dir (webhook exEnv (exRequest '' Subscribe Pune '') exKnown) = exSubscribed"
  by (simp add: webhook_subscribe exRequest_from ex_msg_subscribe startsWith_def replyAndEnd_dir
      Let_def trim_def isWhiteSpace_def Map_has_def Map_set_def emptyDirectory_def exKnown_def exSubscribed_def)

lemma exSubscribed_reachable: "reachable exSubscribed"
proof -
  have "reachable (dir (webhook exEnv (exRequest ''Hello'') emptyDirectory))"
    by (rule reachable_webhook) (rule reachable_empty)
  then have "reachable exKnown" by (simp only: ex_first)
  then have "reachable (dir (webhook exEnv (exRequest '' Subscribe Pune '') exKnown))"
    by (rule reachable_webhook)
  then show ?thesis by (simp only: ex_second)
qed

subsection \<open>Alert thresholds\<close>

text \<open>
  The lookup succeeds exactly when the provider answers with a \<open>weather\<close> array that
  has a first entry, and its alert list is then the list of the threshold policy.
\<close>

lemma getWeather_eq:
  "getWeather api c =
     (case api c of
        None \<Rightarrow> None
      | Some r \<Rightarrow>
          (case owm_weather r of
             [] \<Rightarrow> None
           | w0 # _ \<Rightarrow>
               Some \<lparr>city = owm_name r, temp = owm_main_temp r, description = snd w0,
                     alerts = thresholdAlerts r,
                     wind = (case owm_wind r of None \<Rightarrow> 0 | Some s \<Rightarrow> s)\<rparr>))"
proof (cases "api c")
  case None
  then show ?thesis by (simp add: getWeather_def)
next
  case (Some r)
  show ?thesis
  proof (cases "owm_weather r")
    case Nil
    with Some show ?thesis by (simp add: getWeather_def Let_def)
  next
    case (Cons w0 ws)
    with Some show ?thesis
      by (cases "owm_wind r") (auto simp: getWeather_def thresholdAlerts_def Let_def)
  qed
qed

text \<open>
  Claim C2. Every answer of the weather provider that has a first \<open>weather\<close> entry
  gives a lookup result, and the alert list of every lookup result is the list of the
  alerts of the rules that fire, taken in the order heat (temperature above 35), cold
  (temperature below 5), wind (wind speed above 10), rain (condition category
  \<open>Rain\<close>), storm (condition category \<open>Thunderstorm\<close>), and nothing else. For
  temperature 40, wind speed 15 and category \<open>Rain\<close> the lookup succeeds and the list
  is the heat alert, the wind alert and the rain alert, in this order.
\<close>

theorem alerts_follow_threshold_rules:
  "getWeather api c =
     (case api c of
        None \<Rightarrow> None
      | Some r \<Rightarrow>
          (case owm_weather r of
             [] \<Rightarrow> None
           | w0 # _ \<Rightarrow>
               Some \<lparr>city = owm_name r, temp = owm_main_temp r, description = snd w0,
                     alerts = thresholdAlerts r,
                     wind = (case owm_wind r of None \<Rightarrow> 0 | Some s \<Rightarrow> s)\<rparr>)) \<and>
   (api c = Some r \<and> owm_weather r \<noteq> [] \<longrightarrow>
      (\<exists>w. getWeather api c = Some w \<and> alerts w = thresholdAlerts r)) \<and>
   (getWeather api c = Some w \<longrightarrow>
      (\<exists>r'. api c = Some r' \<and> owm_weather r' \<noteq> [] \<and> alerts w = thresholdAlerts r')) \<and>
   (api c = Some r \<and> owm_main_temp r = 40 \<and> owm_wind r = Some 15 \<and>
      owm_weather r = (''Rain'', d) # others \<longrightarrow>
      (\<exists>w'. getWeather api c = Some w' \<and> alerts w' = [HeatAlert 40, WindAlert 15, RainAlert d]))"
proof (intro conjI impI)
  show "getWeather api c =
     (case api c of
        None \<Rightarrow> None
      | Some r \<Rightarrow>
          (case owm_weather r of
             [] \<Rightarrow> None
           | w0 # _ \<Rightarrow>
               Some \<lparr>city = owm_name r, temp = owm_main_temp r, description = snd w0,
                     alerts = thresholdAlerts r,
                     wind = (case owm_wind r of None \<Rightarrow> 0 | Some s \<Rightarrow> s)\<rparr>))"
    by (rule getWeather_eq)
next
  assume "api c = Some r \<and> owm_weather r \<noteq> []"
  then show "\<exists>w. getWeather api c = Some w \<and> alerts w = thresholdAlerts r"
    by (cases "owm_weather r") (simp_all add: getWeather_eq)
next
  assume a: "getWeather api c = Some w"
  then obtain r' where r': "api c = Some r'"
    by (auto simp: getWeather_eq split: option.splits)
  with a show "\<exists>r'. api c = Some r' \<and> owm_weather r' \<noteq> [] \<and> alerts w = thresholdAlerts r'"
    by (cases "owm_weather r'") (auto simp: getWeather_eq)
next
  assume "api c = Some r \<and> owm_main_temp r = 40 \<and> owm_wind r = Some 15 \<and>
      owm_weather r = (''Rain'', d) # others"
  then show "\<exists>w'. getWeather api c = Some w' \<and> alerts w' = [HeatAlert 40, WindAlert 15, RainAlert d]"
    by (simp add: getWeather_eq thresholdAlerts_def)
qed

theorem alerts_follow_threshold_rules_witness:
  "exRainyApi ''pune'' =
     Some \<lparr>owm_name = ''Pune'', owm_main_temp = 40, owm_wind = Some 15,
           owm_weather = [(''Rain'', ''light rain'')]\<rparr> \<and>
   getWeather exRainyApi ''pune'' =
     Some \<lparr>city = ''Pune'', temp = 40, description = ''light rain'',
           alerts = [HeatAlert 40, WindAlert 15, RainAlert ''light rain''], wind = 15\<rparr> \<and>
   thresholdAlerts \<lparr>owm_name = ''Pune'', owm_main_temp = 40, owm_wind = Some 15,
                    owm_weather = [(''Rain'', ''light rain'')]\<rparr> =
     [HeatAlert 40, WindAlert 15, RainAlert ''light rain'']"
proof -
  let ?r = "\<lparr>owm_name = ''Pune'', owm_main_temp = 40, owm_wind = Some 15,
             owm_weather = [(''Rain'', ''light rain'')]\<rparr>"
  let ?w = "\<lparr>city = ''Pune'', temp = 40, description = ''light rain'',
             alerts = thresholdAlerts ?r, wind = 15\<rparr>"
  note t = alerts_follow_threshold_rules [of exRainyApi "''pune''" ?r ?w "''light rain''" "[]"]
  have a: "exRainyApi ''pune'' = Some ?r" by (simp add: exRainyApi_def)
  from t a have g: "getWeather exRainyApi ''pune'' = Some ?w" by simp
  from t a obtain w' where "getWeather exRainyApi ''pune'' = Some w'"
    and "alerts w' = [HeatAlert 40, WindAlert 15, RainAlert ''light rain'']"
    by auto
  with g have "thresholdAlerts ?r = [HeatAlert 40, WindAlert 15, RainAlert ''light rain'']"
    by auto
  with a g show ?thesis by simp
qed

subsection \<open>The missing-sender guard\<close>

text \<open>
  On a sender that is one string, or missing, the guard of line 137 answers 400 when
  nothing is left of it once the first \<open>whatsapp:\<close> is removed and the rest trimmed,
  with no write and no call; every other such request is answered 200 OK.
\<close>

lemma sender_guard:
  "(fromOf req = [] \<longrightarrow>
      webhook e req st = \<lparr>dir = st, httpStatus = 400, httpBody = ''Missing sender'', calls = []\<rparr>) \<and>
   (fromOf req \<noteq> [] \<longrightarrow>
      httpStatus (webhook e req st) = 200 \<and> httpBody (webhook e req st) = ''OK'')"
  by (simp add: webhook_def Let_def replyAndEnd_status weatherReply_status split: option.splits)

lemma webhookHandler_single:
  "formFrom f = Single s \<Longrightarrow>
   webhookHandler e f st = Inr (webhook e \<lparr>Body = bodyOf (formBody f), From = Some s\<rparr> st)"
  by (simp add: webhookHandler_def)

lemma webhookHandler_missing:
  "formFrom f = Missing \<Longrightarrow>
   webhookHandler e f st =
     Inr \<lparr>dir = st, httpStatus = 400, httpBody = ''Missing sender'', calls = []\<rparr>"
  by (simp add: webhookHandler_def webhook_def fromOf_def trim_def)

text \<open>A sender made of a no-break space and a space is no sender.\<close>

lemma blank_sender_rejected:
  "webhook exEnv exNoSender exKnown =
     \<lparr>dir = exKnown, httpStatus = 400, httpBody = ''Missing sender'', calls = []\<rparr>"
proof -
  have "fromOf exNoSender = []"
    by (simp add: fromOf_def exNoSender_def trim_def isWhiteSpace_def)
  then show ?thesis by (simp add: sender_guard)
qed

lemma webhookHandler_repeated:
  "formFrom f = Repeated xs \<Longrightarrow> webhookHandler e f st = Inl TypeError"
  by (simp add: webhookHandler_def)

text \<open>
  Claim C10, at a request whose \<open>From\<close> key is repeated. The claim has the
  empty sender as the only request that is not acknowledged. Here the sender is an
  array, line 135 throws, and the request gets neither 200 nor 400; the same request
  with one \<open>From\<close> is acknowledged and subscribes the user.
\<close>

theorem repeated_sender_throws:
  "webhookHandler exEnv exRepeatedFrom exKnown = Inl TypeError \<and>
   webhookHandler exEnv (exRepeatedFrom\<lparr>formFrom := Single ''whatsapp:+911234''\<rparr>) exKnown =
     Inr \<lparr>dir = exSubscribed, httpStatus = 200, httpBody = ''OK'',
          calls = [MessagesCreate ''+911234'' (Composed [Subscribed ''pune''])]\<rparr>"
proof -
  have k: "Map_has (userPreferences exKnown) ''+911234''"
    by (simp add: exKnown_def emptyDirectory_def Map_has_def)
  have f: "fromOf \<lparr>Body = Some ''subscribe pune'', From = Some ''whatsapp:+911234''\<rparr> = ''+911234''"
    by (simp add: fromOf_def trim_def isWhiteSpace_def)
  have m: "incomingMsgOf \<lparr>Body = Some ''subscribe pune'', From = Some ''whatsapp:+911234''\<rparr> = ''subscribe pune''"
    by (simp add: incomingMsgOf_def toLowerCase_def lowerChar_def char_of_def bit_0 trim_def isWhiteSpace_def)
  have l: "userLanguage exSubscribed ''+911234'' = En"
    by (simp add: exSubscribed_def userLanguage_def Map_get_def)
  have "webhook exEnv \<lparr>Body = Some ''subscribe pune'', From = Some ''whatsapp:+911234''\<rparr> exKnown =
      replyAndEnd exEnv exSubscribed [] ''+911234'' [Subscribed ''pune'']"
    using k by (simp add: webhook_subscribe f m startsWith_def Let_def trim_def isWhiteSpace_def)
      (simp add: exKnown_def exSubscribed_def emptyDirectory_def Map_set_def)
  then show ?thesis using l
    by (simp add: webhookHandler_def exRepeatedFrom_def bodyOf_def replyAndEnd_En)
qed

subsection \<open>Invariants of the directory\<close>

text \<open>
  Claim C1. In every directory reachable from the empty one by webhook requests, each
  of the three maps has at most one entry per user identifier, and every subscribed
  user has a stored, non-empty location. A \<open>subscribe\<close> message whose city is empty
  changes neither the set of subscribers nor the locations, and a known user is
  answered with the usage hint.
\<close>

theorem directory_invariants:
  assumes "reachable st"
  shows "distinct (map fst (userPreferences st)) \<and>
         distinct (map fst (userLocations st)) \<and>
         distinct (map fst (userActivities st)) \<and>
         (\<forall>p \<in> subscribers st. \<exists>c. Map_get (userLocations st) p = Some c \<and> c \<noteq> []) \<and>
         (startsWith (incomingMsgOf req) ''subscribe'' \<and>
          trim (replace (incomingMsgOf req) ''subscribe'' []) = [] \<longrightarrow>
            subscribers (dir (webhook e req st)) = subscribers st \<and>
            userLocations (dir (webhook e req st)) = userLocations st \<and>
            (fromOf req \<noteq> [] \<and> Map_has (userPreferences st) (fromOf req) \<longrightarrow>
               webhook e req st = replyAndEnd e st [] (fromOf req) [SubscribeUsage]))"
proof -
  from assms have inv: "directoryInv st" by (rule reachable_inv)
  have loc: "\<forall>p \<in> subscribers st. \<exists>c. Map_get (userLocations st) p = Some c \<and> c \<noteq> []"
  proof
    fix p assume "p \<in> subscribers st"
    with inv have "Map_has (userLocations st) p" by (simp add: directoryInv_def)
    then obtain c where c: "Map_get (userLocations st) p = Some c"
      by (auto simp: Map_has_get)
    moreover from inv have "Map_get (userLocations st) p \<noteq> Some []"
      by (simp add: directoryInv_def)
    ultimately show "\<exists>c. Map_get (userLocations st) p = Some c \<and> c \<noteq> []" by auto
  qed
  have rej: "subscribers (dir (webhook e req st)) = subscribers st \<and>
            userLocations (dir (webhook e req st)) = userLocations st \<and>
            (fromOf req \<noteq> [] \<and> Map_has (userPreferences st) (fromOf req) \<longrightarrow>
               webhook e req st = replyAndEnd e st [] (fromOf req) [SubscribeUsage])"
    if s: "startsWith (incomingMsgOf req) ''subscribe''"
      and c: "trim (replace (incomingMsgOf req) ''subscribe'' []) = []"
  proof (cases "fromOf req = []")
    case True
    then show ?thesis by (simp add: webhook_missing_sender)
  next
    case False
    show ?thesis
    proof (cases "Map_has (userPreferences st) (fromOf req)")
      case True
      with False s c show ?thesis by (simp add: webhook_subscribe replyAndEnd_dir)
    next
      case n: False
      with False show ?thesis by (simp add: webhook_first_contact)
    qed
  qed
  from inv loc rej show ?thesis by (simp add: directoryInv_def)
qed

theorem directory_invariants_witness:
  "reachable exSubscribed \<and>
   subscribers exSubscribed = {''+911234''} \<and>
   Map_get (userLocations exSubscribed) ''+911234'' = Some ''pune'' \<and>
   distinct (map fst (userLocations exSubscribed)) \<and>
   startsWith (incomingMsgOf (exRequest '' Subscribe '')) ''subscribe'' \<and>
   trim (replace (incomingMsgOf (exRequest '' Subscribe '')) ''subscribe'' []) = [] \<and>
   dir (webhook exEnv (exRequest '' Subscribe '') exSubscribed) = exSubscribed \<and>
   calls (webhook exEnv (exRequest '' Subscribe '') exSubscribed) =
     [MessagesCreate ''+911234'' (Composed [SubscribeUsage])]"
proof -
  have m: "incomingMsgOf (exRequest '' Subscribe '') = ''subscribe''"
    by (simp add: incomingMsgOf_def exRequest_def toLowerCase_def lowerChar_def char_of_def bit_0 trim_def isWhiteSpace_def)
  have k: "Map_has (userPreferences exSubscribed) ''+911234''"
    by (simp add: exSubscribed_def Map_has_def)
  have l: "userLanguage exSubscribed ''+911234'' = En"
    by (simp add: exSubscribed_def userLanguage_def Map_get_def)
  show ?thesis
    using directory_invariants [OF exSubscribed_reachable, of "exRequest '' Subscribe ''" exEnv] k l
    by (simp add: m exRequest_from startsWith_def trim_def replyAndEnd_En exSubscribed_reachable)
       (simp add: exSubscribed_def Map_get_def)
qed

subsection \<open>First contact\<close>

text \<open>
  Claim C5. For a sender with no preference entry in a reachable directory, whatever
  the message says, the request appends exactly one entry with language \<open>en\<close> for
  the sender, makes one external call, the welcome message sent untranslated, and is
  answered 200 OK; the sender is not subscribed and has neither a location nor an
  activity log afterwards.
\<close>

theorem first_contact_welcome:
  assumes "reachable st" "fromOf req \<noteq> []" "\<not> Map_has (userPreferences st) (fromOf req)"
  shows "webhook e req st =
           \<lparr>dir = st\<lparr>userPreferences := userPreferences st @ [(fromOf req, En)]\<rparr>,
            httpStatus = 200, httpBody = ''OK'',
            calls = [MessagesCreate (fromOf req) (Composed [Welcome])]\<rparr> \<and>
         userLanguage (dir (webhook e req st)) (fromOf req) = En \<and>
         fromOf req \<notin> subscribers (dir (webhook e req st)) \<and>
         Map_get (userLocations (dir (webhook e req st))) (fromOf req) = None \<and>
         Map_get (userActivities (dir (webhook e req st))) (fromOf req) = None"
proof -
  from assms(1) have inv: "directoryInv st" by (rule reachable_inv)
  from inv assms(3) have l: "\<not> Map_has (userLocations st) (fromOf req)"
    and a: "\<not> Map_has (userActivities st) (fromOf req)"
    by (auto simp: directoryInv_def)
  from inv l have s: "fromOf req \<notin> subscribers st" by (simp add: directoryInv_def)
  have w: "webhook e req st =
           \<lparr>dir = st\<lparr>userPreferences := userPreferences st @ [(fromOf req, En)]\<rparr>,
            httpStatus = 200, httpBody = ''OK'',
            calls = [MessagesCreate (fromOf req) (Composed [Welcome])]\<rparr>"
    using assms(2,3) by (simp add: webhook_first_contact Map_set_new)
  have "Map_get (userPreferences st @ [(fromOf req, En)]) (fromOf req) = Some En"
    using assms(3) by (simp add: Map_get_set flip: Map_set_new)
  with w l a s show ?thesis by (simp add: userLanguage_def Map_has_get)
qed

theorem first_contact_welcome_witness:
  "reachable emptyDirectory \<and> fromOf (exRequest ''subscribe pune'') \<noteq> [] \<and>
   \<not> Map_has (userPreferences emptyDirectory) (fromOf (exRequest ''subscribe pune'')) \<and>
   webhook exEnv (exRequest ''subscribe pune'') emptyDirectory =
     \<lparr>dir = exKnown, httpStatus = 200, httpBody = ''OK'',
      calls = [MessagesCreate ''+911234'' (Composed [Welcome])]\<rparr> \<and>
   ''+911234'' \<notin> subscribers exKnown"
  using first_contact_welcome [OF reachable_empty, of "exRequest ''subscribe pune''" exEnv]
  by (simp add: exRequest_from reachable_empty) (simp add: emptyDirectory_def exKnown_def Map_has_def)

subsection \<open>Unsubscribe\<close>

text \<open>
  Claim C6. For a known user, \<open>unsubscribe\<close> removes the user from the subscribers
  and deletes the stored location, leaves the preferences and the activity logs as
  they are, and a second \<open>unsubscribe\<close> leaves the directory of the first.
\<close>

theorem unsubscribe_idempotent:
  assumes "fromOf req \<noteq> []" "Map_has (userPreferences st) (fromOf req)"
    "incomingMsgOf req = ''unsubscribe''"
  shows "subscribers (dir (webhook e req st)) = subscribers st - {fromOf req} \<and>
         userLocations (dir (webhook e req st)) = Map_delete (userLocations st) (fromOf req) \<and>
         fromOf req \<notin> subscribers (dir (webhook e req st)) \<and>
         Map_get (userLocations (dir (webhook e req st))) (fromOf req) = None \<and>
         userPreferences (dir (webhook e req st)) = userPreferences st \<and>
         userActivities (dir (webhook e req st)) = userActivities st \<and>
         dir (webhook e' req (dir (webhook e req st))) = dir (webhook e req st)"
proof -
  let ?st' = "st\<lparr>subscribers := subscribers st - {fromOf req},
                 userLocations := Map_delete (userLocations st) (fromOf req)\<rparr>"
  have d: "dir (webhook e req st) = ?st'"
    using assms by (simp add: webhook_unsubscribe replyAndEnd_dir)
  have "webhook e' req ?st' =
      replyAndEnd e'
        (?st'\<lparr>subscribers := subscribers ?st' - {fromOf req},
              userLocations := Map_delete (userLocations ?st') (fromOf req)\<rparr>)
        [] (fromOf req) [Unsubscribed]"
    by (rule webhook_unsubscribe) (use assms in simp_all)
  then have "dir (webhook e' req ?st') = ?st'"
    by (simp add: replyAndEnd_dir Map_delete_idem)
  with d show ?thesis by (simp add: Map_get_delete)
qed

theorem unsubscribe_idempotent_witness:
  "fromOf (exRequest '' UnSubscribe '') \<noteq> [] \<and>
   Map_has (userPreferences exSubscribed) (fromOf (exRequest '' UnSubscribe '')) \<and>
   incomingMsgOf (exRequest '' UnSubscribe '') = ''unsubscribe'' \<and>
   dir (webhook exEnv (exRequest '' UnSubscribe '') exSubscribed) = exKnown \<and>
   dir (webhook exDownEnv (exRequest '' UnSubscribe '') exKnown) = exKnown"
proof -
  have m: "incomingMsgOf (exRequest '' UnSubscribe '') = ''unsubscribe''"
    by (simp add: incomingMsgOf_def exRequest_def toLowerCase_def lowerChar_def char_of_def bit_0 trim_def isWhiteSpace_def)
  have k: "Map_has (userPreferences exSubscribed) ''+911234''"
    by (simp add: exSubscribed_def Map_has_def)
  have eq: "exSubscribed\<lparr>subscribers := subscribers exSubscribed - {''+911234''},
      userLocations := Map_delete (userLocations exSubscribed) ''+911234''\<rparr> = exKnown"
    by (simp add: exSubscribed_def exKnown_def emptyDirectory_def Map_delete_def)
  have "dir (webhook exEnv (exRequest '' UnSubscribe '') exSubscribed) = exKnown"
    using unsubscribe_idempotent [of "exRequest '' UnSubscribe ''" exSubscribed exEnv exDownEnv] k m eq
    by (simp add: exRequest_from) (simp add: exSubscribed_def exKnown_def emptyDirectory_def Map_delete_def)
  moreover from this have "dir (webhook exDownEnv (exRequest '' UnSubscribe '') exKnown) = exKnown"
    using unsubscribe_idempotent [of "exRequest '' UnSubscribe ''" exSubscribed exEnv exDownEnv] k m
    by (simp add: exRequest_from)
  ultimately show ?thesis using k m by (simp add: exRequest_from)
qed

subsection \<open>The weather query\<close>

lemma ex_msg_weather: "incomingMsgOf (exRequest ''Weather Pune'') = ''weather pune''"
  by (simp add: incomingMsgOf_def exRequest_def toLowerCase_def lowerChar_def char_of_def bit_0 trim_def isWhiteSpace_def)

lemma ex_city: "requestedCity st p ''weather pune'' = Some ''pune''"
  by (simp add: requestedCity_def trim_def isWhiteSpace_def)

lemma ex_getWeather:
  "getWeather exRainyApi ''pune'' =
     Some \<lparr>city = ''Pune'', temp = 40, description = ''light rain'',
           alerts = [HeatAlert 40, WindAlert 15, RainAlert ''light rain''], wind = 15\<rparr>"
  by (simp add: getWeather_def exRainyApi_def)

lemma getWeather_fails: "api c = None \<Longrightarrow> getWeather api c = None"
  by (simp add: getWeather_def)

lemma replyAndEnd_calls:
  "calls (replyAndEnd e st tr phone txt) =
     tr @ (if userLanguage st phone = En then [MessagesCreate phone (Composed txt)]
           else [GenerateContent (TranslatePrompt txt (userLanguage st phone)),
                 MessagesCreate phone
                   (case generateContent e (TranslatePrompt txt (userLanguage st phone)) of
                      None \<Rightarrow> Composed txt
                    | Some t \<Rightarrow> Generated t)])"
  by (simp add: replyAndEnd_def Let_def split: option.splits)

text \<open>
  Claim C3, as amended. When the weather provider's call fails on a weather query of a
  known user, the reply handed to delivery is the one fixed could-not-fetch-weather
  text, the advice prompt is never given to the generative model, the directory is
  unchanged and the answer is 200 OK. A user whose language is \<open>en\<close> is sent the
  fixed text and the generative model is not called at all; for any other language the
  generative model is called once, to translate the fixed text, and the user is sent
  the translation, or the fixed text when the translation fails.
\<close>

theorem weather_failure_reply:
  assumes "fromOf req \<noteq> []" "Map_has (userPreferences st) (fromOf req)"
    "startsWith (incomingMsgOf req) ''weather''"
    "requestedCity st (fromOf req) (incomingMsgOf req) = Some c" "c \<noteq> []"
    "weatherApi e c = None"
  shows "webhook e req st = replyAndEnd e st [WeatherRequest c] (fromOf req) [WeatherFailed] \<and>
         dir (webhook e req st) = st \<and>
         httpStatus (webhook e req st) = 200 \<and>
         calls (webhook e req st) =
           WeatherRequest c #
           (if userLanguage st (fromOf req) = En
            then [MessagesCreate (fromOf req) (Composed [WeatherFailed])]
            else [GenerateContent (TranslatePrompt [WeatherFailed] (userLanguage st (fromOf req))),
                  MessagesCreate (fromOf req)
                    (case generateContent e
                            (TranslatePrompt [WeatherFailed] (userLanguage st (fromOf req))) of
                       None \<Rightarrow> Composed [WeatherFailed]
                     | Some t \<Rightarrow> Generated t)]) \<and>
         GenerateContent (AdvicePrompt t d w l) \<notin> set (calls (webhook e req st))"
proof -
  have "getWeather (weatherApi e) c = None" using assms(6) by (rule getWeather_fails)
  then have w: "webhook e req st = replyAndEnd e st [WeatherRequest c] (fromOf req) [WeatherFailed]"
    using assms(1-5) by (simp add: webhook_weather weatherReply_def)
  show ?thesis unfolding w
    by (simp add: replyAndEnd_dir replyAndEnd_status replyAndEnd_calls)
qed

theorem weather_failure_reply_witness:
  "fromOf (exRequest ''Weather Pune'') \<noteq> [] \<and>
   Map_has (userPreferences exKnown) (fromOf (exRequest ''Weather Pune'')) \<and>
   startsWith (incomingMsgOf (exRequest ''Weather Pune'')) ''weather'' \<and>
   requestedCity exKnown (fromOf (exRequest ''Weather Pune''))
     (incomingMsgOf (exRequest ''Weather Pune'')) = Some ''pune'' \<and>
   weatherApi exDownEnv ''pune'' = None \<and>
   webhook exDownEnv (exRequest ''Weather Pune'') exKnown =
     \<lparr>dir = exKnown, httpStatus = 200, httpBody = ''OK'',
      calls = [WeatherRequest ''pune'', MessagesCreate ''+911234'' (Composed [WeatherFailed])]\<rparr>"
proof -
  have k: "Map_has (userPreferences exKnown) ''+911234''"
    by (simp add: exKnown_def emptyDirectory_def Map_has_def)
  have l: "userLanguage exKnown ''+911234'' = En"
    by (simp add: exKnown_def emptyDirectory_def userLanguage_def Map_get_def)
  have d: "weatherApi exDownEnv ''pune'' = None" by (simp add: exDownEnv_def exNoWeather_def)
  show ?thesis
    using weather_failure_reply [of "exRequest ''Weather Pune''" exKnown "''pune''" exDownEnv] k l d
    by (simp add: exRequest_from ex_msg_weather ex_city startsWith_def replyAndEnd_En)
qed

theorem weather_failure_counterexample:
  "weatherApi exDownEnv ''pune'' = None \<and>
   webhook exDownEnv (exRequest ''Weather Pune'') exHindi =
     \<lparr>dir = exHindi, httpStatus = 200, httpBody = ''OK'',
      calls = [WeatherRequest ''pune'',
               GenerateContent (TranslatePrompt [WeatherFailed] Hi),
               MessagesCreate ''+911234'' (Generated ''generated'')]\<rparr> \<and>
   calls (webhook exDownEnv (exRequest ''Weather Pune'') exHindi) \<noteq>
     [WeatherRequest ''pune'', MessagesCreate ''+911234'' (Composed [WeatherFailed])]"
proof -
  have k: "Map_has (userPreferences exHindi) ''+911234''"
    by (simp add: exHindi_def emptyDirectory_def Map_has_def)
  have l: "userLanguage exHindi ''+911234'' = Hi"
    by (simp add: exHindi_def emptyDirectory_def userLanguage_def Map_get_def)
  have d: "weatherApi exDownEnv ''pune'' = None" by (simp add: exDownEnv_def exNoWeather_def)
  have g: "generateContent exDownEnv p = Some ''generated''" for p
    by (simp add: exDownEnv_def exGenerate_def)
  have "webhook exDownEnv (exRequest ''Weather Pune'') exHindi =
      weatherReply exDownEnv exHindi ''+911234'' ''pune''"
    using k by (simp add: webhook_weather exRequest_from ex_msg_weather ex_city startsWith_def)
  then show ?thesis using l d g
    by (simp add: weatherReply_def getWeather_fails replyAndEnd_def)
qed

text \<open>
  Claim C4, as amended. When the weather lookup succeeds and the advice call fails, the
  reply handed to delivery is the weather section (city, temperature, conditions), the
  alert lines when there are alerts, and the farming-tips section holding the fixed
  fallback sentence; the directory is unchanged and the answer is 200 OK. A user whose
  language is \<open>en\<close> is sent this reply as composed; for any other language it goes
  through the translator first.
\<close>

theorem advice_failure_reply:
  assumes "fromOf req \<noteq> []" "Map_has (userPreferences st) (fromOf req)"
    "startsWith (incomingMsgOf req) ''weather''"
    "requestedCity st (fromOf req) (incomingMsgOf req) = Some c" "c \<noteq> []"
    "getWeather (weatherApi e) c = Some w"
    "generateContent e
       (AdvicePrompt (temp w) (description w) (wind w) (userLanguage st (fromOf req))) = None"
  shows "webhook e req st =
           replyAndEnd e st
             [WeatherRequest c,
              GenerateContent
                (AdvicePrompt (temp w) (description w) (wind w) (userLanguage st (fromOf req)))]
             (fromOf req)
             (CurrentWeather (city w) (temp w) (description w) #
              (if alerts w = [] then [] else [AlertLines (alerts w)]) @
              [FarmingTips adviceFallback]) \<and>
         dir (webhook e req st) = st \<and>
         httpStatus (webhook e req st) = 200 \<and> httpBody (webhook e req st) = ''OK'' \<and>
         (userLanguage st (fromOf req) = En \<longrightarrow>
            calls (webhook e req st) =
              [WeatherRequest c,
               GenerateContent (AdvicePrompt (temp w) (description w) (wind w) En),
               MessagesCreate (fromOf req)
                 (Composed
                   (CurrentWeather (city w) (temp w) (description w) #
                    (if alerts w = [] then [] else [AlertLines (alerts w)]) @
                    [FarmingTips adviceFallback]))])"
proof -
  have a: "getCropAdviceAI e w (userLanguage st (fromOf req)) = adviceFallback"
    using assms(7) by (simp add: getCropAdviceAI_def)
  have n: "length adviceFallback > 0" by (simp add: adviceFallback_def)
  have x: "webhook e req st =
           replyAndEnd e st
             [WeatherRequest c,
              GenerateContent
                (AdvicePrompt (temp w) (description w) (wind w) (userLanguage st (fromOf req)))]
             (fromOf req)
             (CurrentWeather (city w) (temp w) (description w) #
              (if alerts w = [] then [] else [AlertLines (alerts w)]) @
              [FarmingTips adviceFallback])"
    using assms(1-6) a n by (simp add: webhook_weather weatherReply_def Let_def)
  show ?thesis unfolding x
    by (simp add: replyAndEnd_dir replyAndEnd_status replyAndEnd_calls)
qed

theorem advice_failure_reply_witness:
  "fromOf (exRequest ''Weather Pune'') \<noteq> [] \<and>
   Map_has (userPreferences exKnown) (fromOf (exRequest ''Weather Pune'')) \<and>
   startsWith (incomingMsgOf (exRequest ''Weather Pune'')) ''weather'' \<and>
   requestedCity exKnown (fromOf (exRequest ''Weather Pune''))
     (incomingMsgOf (exRequest ''Weather Pune'')) = Some ''pune'' \<and>
   generateContent exEnv (AdvicePrompt 40 ''light rain'' 15 En) = None \<and>
   webhook exEnv (exRequest ''Weather Pune'') exKnown =
     \<lparr>dir = exKnown, httpStatus = 200, httpBody = ''OK'',
      calls = [WeatherRequest ''pune'',
               GenerateContent (AdvicePrompt 40 ''light rain'' 15 En),
               MessagesCreate ''+911234''
                 (Composed [CurrentWeather ''Pune'' 40 ''light rain'',
                            AlertLines [HeatAlert 40, WindAlert 15, RainAlert ''light rain''],
                            FarmingTips ''Could not fetch AI advice right now.''])]\<rparr>"
proof -
  have k: "Map_has (userPreferences exKnown) ''+911234''"
    by (simp add: exKnown_def emptyDirectory_def Map_has_def)
  have l: "userLanguage exKnown ''+911234'' = En"
    by (simp add: exKnown_def emptyDirectory_def userLanguage_def Map_get_def)
  have g: "getWeather (weatherApi exEnv) ''pune'' =
     Some \<lparr>city = ''Pune'', temp = 40, description = ''light rain'',
           alerts = [HeatAlert 40, WindAlert 15, RainAlert ''light rain''], wind = 15\<rparr>"
    by (simp add: exEnv_def ex_getWeather)
  have n: "generateContent exEnv p = None" for p by (simp add: exEnv_def exNoGenerate_def)
  show ?thesis
    using advice_failure_reply [of "exRequest ''Weather Pune''" exKnown "''pune''" exEnv, OF _ _ _ _ _ g] k l n
    by (simp add: exRequest_from ex_msg_weather ex_city startsWith_def replyAndEnd_En adviceFallback_def)
qed

theorem advice_failure_counterexample:
  "getWeather (weatherApi exFlakyEnv) ''pune'' =
     Some \<lparr>city = ''Pune'', temp = 40, description = ''light rain'',
           alerts = [HeatAlert 40, WindAlert 15, RainAlert ''light rain''], wind = 15\<rparr> \<and>
   generateContent exFlakyEnv (AdvicePrompt 40 ''light rain'' 15 Hi) = None \<and>
   webhook exFlakyEnv (exRequest ''Weather Pune'') exHindi =
     \<lparr>dir = exHindi, httpStatus = 200, httpBody = ''OK'',
      calls = [WeatherRequest ''pune'',
               GenerateContent (AdvicePrompt 40 ''light rain'' 15 Hi),
               GenerateContent
                 (TranslatePrompt
                    [CurrentWeather ''Pune'' 40 ''light rain'',
                     AlertLines [HeatAlert 40, WindAlert 15, RainAlert ''light rain''],
                     FarmingTips ''Could not fetch AI advice right now.''] Hi),
               MessagesCreate ''+911234'' (Generated ''generated'')]\<rparr> \<and>
   MessagesCreate ''+911234''
     (Composed [CurrentWeather ''Pune'' 40 ''light rain'',
                AlertLines [HeatAlert 40, WindAlert 15, RainAlert ''light rain''],
                FarmingTips ''Could not fetch AI advice right now.''])
     \<notin> set (calls (webhook exFlakyEnv (exRequest ''Weather Pune'') exHindi))"
proof -
  have k: "Map_has (userPreferences exHindi) ''+911234''"
    by (simp add: exHindi_def emptyDirectory_def Map_has_def)
  have l: "userLanguage exHindi ''+911234'' = Hi"
    by (simp add: exHindi_def emptyDirectory_def userLanguage_def Map_get_def)
  have g: "getWeather (weatherApi exFlakyEnv) ''pune'' =
     Some \<lparr>city = ''Pune'', temp = 40, description = ''light rain'',
           alerts = [HeatAlert 40, WindAlert 15, RainAlert ''light rain''], wind = 15\<rparr>"
    by (simp add: exFlakyEnv_def ex_getWeather)
  have "webhook exFlakyEnv (exRequest ''Weather Pune'') exHindi =
      weatherReply exFlakyEnv exHindi ''+911234'' ''pune''"
    using k by (simp add: webhook_weather exRequest_from ex_msg_weather ex_city startsWith_def)
  then show ?thesis using l g
    by (simp add: weatherReply_def replyAndEnd_def getCropAdviceAI_def adviceFallback_def Let_def
        exFlakyEnv_def exFlakyGenerate_def)
qed

subsection \<open>The activity log\<close>

text \<open>
  The message is trimmed before it is matched against \<open>log \<close>, so a message that
  passes the match always has an activity: the usage reply of lines 177-179 is never
  given, and every message that passes the match appends one entry.
\<close>

lemma incomingMsgOf_trimmed:
  "incomingMsgOf req = trim (toLowerCase (case Body req of None \<Rightarrow> [] | Some b \<Rightarrow> b))"
  by (simp add: incomingMsgOf_def toLowerCase_trim)

lemma log_activity_nonempty:
  assumes "startsWith (incomingMsgOf req) ''log ''"
  shows "trim (drop 4 (incomingMsgOf req)) \<noteq> []"
proof
  assume e: "trim (drop 4 (incomingMsgOf req)) = []"
  obtain rest where m: "incomingMsgOf req = ''log '' @ rest"
    using assms by (auto simp: startsWith_def elim: prefixE)
  from e m have ws: "\<forall>c \<in> set rest. isWhiteSpace c" by (simp add: trim_eq_Nil)
  have "isWhiteSpace (last (''log '' @ rest))"
  proof (cases "rest = []")
    case True
    then show ?thesis by (simp add: isWhiteSpace_def)
  next
    case False
    then have "last rest \<in> set rest" by simp
    with ws False show ?thesis by simp
  qed
  moreover have "\<not> isWhiteSpace (last (incomingMsgOf req))"
    unfolding incomingMsgOf_trimmed
    by (rule trim_last) (use m in \<open>simp add: incomingMsgOf_trimmed\<close>)
  ultimately show False by (simp add: m)
qed

lemma log_appends:
  assumes "fromOf req \<noteq> []" "Map_has (userPreferences st) (fromOf req)"
    "startsWith (incomingMsgOf req) ''log ''"
  shows "webhook e req st =
     replyAndEnd e
       (st\<lparr>userActivities :=
             Map_set (userActivities st) (fromOf req)
               ((case Map_get (userActivities st) (fromOf req) of None \<Rightarrow> [] | Some l \<Rightarrow> l) @
                [\<lparr>activity = trim (drop 4 (incomingMsgOf req)), date = now e\<rparr>])\<rparr>)
       [] (fromOf req) [Logged (trim (drop 4 (incomingMsgOf req)))]"
  using assms log_activity_nonempty [OF assms(3)]
  by (simp add: webhook_log Let_def)

text \<open>
  Claim C7, at the input \<open>log \<close> of a known user. The claim asks for the reply that
  asks for an activity. The trimmed message is \<open>log\<close>, which no matcher accepts, and
  the user is sent the help text; the directory is unchanged.
\<close>

theorem empty_log_gets_help:
  "incomingMsgOf (exRequest ''log '') = ''log'' \<and>
   webhook exEnv (exRequest ''log '') exKnown =
     \<lparr>dir = exKnown, httpStatus = 200, httpBody = ''OK'',
      calls = [MessagesCreate ''+911234'' (Composed [HelpText])]\<rparr>"
proof -
  have m: "incomingMsgOf (exRequest ''log '') = ''log''"
    by (simp add: incomingMsgOf_def exRequest_def toLowerCase_def lowerChar_def char_of_def bit_0 trim_def isWhiteSpace_def)
  have k: "Map_has (userPreferences exKnown) ''+911234''"
    by (simp add: exKnown_def emptyDirectory_def Map_has_def)
  have l: "userLanguage exKnown ''+911234'' = En"
    by (simp add: exKnown_def emptyDirectory_def userLanguage_def Map_get_def)
  have "webhook exEnv (exRequest ''log '') exKnown = replyAndEnd exEnv exKnown [] ''+911234'' [HelpText]"
    using k by (simp add: webhook_def Let_def m exRequest_from startsWith_def)
  with m l show ?thesis by (simp add: replyAndEnd_En)
qed

subsection \<open>Normalisation of the message\<close>

lemma toLowerCase_literals:
  "toLowerCase ''subscribe'' = ''subscribe''" "toLowerCase ''log '' = ''log ''"
  by (simp_all add: toLowerCase_def lowerChar_def char_of_def bit_0)

lemma toLowerCase_eq_Nil: "toLowerCase s = [] \<longleftrightarrow> s = []"
  by (simp add: toLowerCase_def)

lemma command_argument:
  assumes "p \<noteq> []" "\<not> isWhiteSpace (hd p)" "toLowerCase p = p" "trim x \<noteq> []"
    "Body req = Some (p @ x)"
  shows "\<exists>rest. incomingMsgOf req = p @ rest \<and> trim rest = toLowerCase (trim x)"
proof -
  let ?r = "rev (dropWhile isWhiteSpace (rev x))"
  have "incomingMsgOf req = toLowerCase (p @ ?r)"
    using assms by (simp add: incomingMsgOf_def trim_command)
  then have "incomingMsgOf req = p @ toLowerCase ?r"
    using assms(3) by (simp add: toLowerCase_append)
  moreover have "trim (toLowerCase ?r) = toLowerCase (trim x)"
    by (simp add: trim_rtrim flip: toLowerCase_trim)
  ultimately show ?thesis by blast
qed

text \<open>The model's blanks and lower-casing against the code points.\<close>

lemma isWhiteSpace_blank: "isWhiteSpace c = blank c"
  by (simp add: isWhiteSpace_code blank_def)

lemma of_char_lowerChar_capital:
  "(of_char (lowerChar c) :: nat) = (if capital c then of_char c + 32 else of_char c)"
  by (auto simp: of_char_lowerChar capital_def)

lemma lowerChar_sameLetter: "sameLetter c (lowerChar c) \<and> \<not> capital (lowerChar c)"
proof (cases "capital c")
  case True
  then have "(of_char (lowerChar c) :: nat) = of_char c + 32"
    by (simp add: of_char_lowerChar_capital)
  with True show ?thesis by (auto simp: sameLetter_def capital_def)
next
  case False
  then have "(of_char (lowerChar c) :: nat) = of_char c"
    by (simp add: of_char_lowerChar_capital)
  then have "lowerChar c = c" by simp
  with False show ?thesis by (simp add: sameLetter_def)
qed

lemma sameLetter_lowerChar:
  assumes "sameLetter a b"
  shows "lowerChar a = lowerChar b"
proof -
  have "(of_char (lowerChar a) :: nat) = of_char (lowerChar b)"
    using assms by (auto simp: sameLetter_def of_char_lowerChar_capital capital_def)
  then show ?thesis by simp
qed

lemma sameLetter_toLowerCase:
  "list_all2 sameLetter b' b \<Longrightarrow> toLowerCase b' = toLowerCase b"
  by (induction rule: list_all2_induct) (simp_all add: toLowerCase_def sameLetter_lowerChar)

lemma toLowerCase_small:
  "list_all2 (\<lambda>u l. sameLetter u l \<and> \<not> capital l) s (toLowerCase s)"
  by (induction s) (simp_all add: toLowerCase_def lowerChar_sameLetter)

lemma rev_dropWhile_takeWhile:
  "rev (dropWhile P (rev xs)) @ rev (takeWhile P (rev xs)) = xs"
proof -
  have "rev (dropWhile P (rev xs)) @ rev (takeWhile P (rev xs)) =
        rev (takeWhile P (rev xs) @ dropWhile P (rev xs))"
    by (simp only: rev_append)
  also have "\<dots> = rev (rev xs)" by (simp only: takeWhile_dropWhile_id)
  finally show ?thesis by simp
qed

lemma trim_split:
  "\<exists>l r. s = l @ trim s @ r \<and> list_all blank l \<and> list_all blank r"
proof -
  let ?rest = "dropWhile isWhiteSpace s"
  let ?l = "takeWhile isWhiteSpace s"
  let ?r = "rev (takeWhile isWhiteSpace (rev ?rest))"
  have "?rest = trim s @ ?r"
    unfolding trim_def by (rule rev_dropWhile_takeWhile [symmetric])
  moreover have "s = ?l @ ?rest" by simp
  ultimately have "s = ?l @ trim s @ ?r" by metis
  moreover have "list_all blank ?l"
    by (auto simp: list_all_iff isWhiteSpace_blank [symmetric] dest: set_takeWhileD)
  moreover have "list_all blank ?r"
    by (auto simp: list_all_iff isWhiteSpace_blank [symmetric] dest: set_takeWhileD)
  ultimately show ?thesis by blast
qed

lemma trim_hd: "trim s \<noteq> [] \<Longrightarrow> \<not> isWhiteSpace (hd (trim s))"
proof -
  assume a: "trim s \<noteq> []"
  let ?rest = "dropWhile isWhiteSpace s"
  have r: "?rest = trim s @ rev (takeWhile isWhiteSpace (rev ?rest))"
    unfolding trim_def by (rule rev_dropWhile_takeWhile [symmetric])
  from a have "\<not> (\<forall>c \<in> set s. isWhiteSpace c)" by (simp add: trim_eq_Nil)
  then have "?rest \<noteq> []" by (simp add: dropWhile_eq_Nil_conv)
  then have "\<not> isWhiteSpace (hd ?rest)" by (rule hd_dropWhile)
  moreover have "hd ?rest = hd (trim s)" using a r by (metis hd_append2)
  ultimately show ?thesis by simp
qed

text \<open>
  Claim C9. The message the matchers see is the body trimmed, then lower-cased. The
  trimmed body is the body without the blanks at its two ends and has no blank at
  either end; the lower-cased text has, place by place, the same letters as the text
  and no capital. So a body padded with blanks and written in another letter case gets
  the same response, directory and calls. For a known user, \<open>subscribe\<close> followed by
  a text stores the trimmed, lower-cased text as the city, and \<open>log \<close> followed by a
  text appends the trimmed, lower-cased text as the activity.
\<close>

theorem matching_is_normalised:
  "incomingMsgOf \<lparr>Body = Some b, From = f\<rparr> = toLowerCase (trim b) \<and>
   (\<exists>l r. b = l @ trim b @ r \<and> list_all blank l \<and> list_all blank r) \<and>
   (trim b \<noteq> [] \<longrightarrow> \<not> blank (hd (trim b)) \<and> \<not> blank (last (trim b))) \<and>
   list_all2 (\<lambda>u l. sameLetter u l \<and> \<not> capital l) b (toLowerCase b) \<and>
   (list_all blank wl \<and> list_all blank wr \<and> list_all2 sameLetter b' b \<longrightarrow>
      webhook e \<lparr>Body = Some (wl @ b' @ wr), From = f\<rparr> st =
      webhook e \<lparr>Body = Some b, From = f\<rparr> st) \<and>
   (fromOf req \<noteq> [] \<and> Map_has (userPreferences st) (fromOf req) \<and> trim x \<noteq> [] \<longrightarrow>
      (Body req = Some (''subscribe'' @ x) \<longrightarrow>
         Map_get (userLocations (dir (webhook e req st))) (fromOf req) =
           Some (toLowerCase (trim x))) \<and>
      (Body req = Some (''log '' @ x) \<longrightarrow>
         Map_get (userActivities (dir (webhook e req st))) (fromOf req) =
           Some ((case Map_get (userActivities st) (fromOf req) of None \<Rightarrow> [] | Some l \<Rightarrow> l) @
                 [\<lparr>activity = toLowerCase (trim x), date = now e\<rparr>])))"
proof (intro conjI impI)
  show "incomingMsgOf \<lparr>Body = Some b, From = f\<rparr> = toLowerCase (trim b)"
    by (simp add: incomingMsgOf_def)
next
  show "\<exists>l r. b = l @ trim b @ r \<and> list_all blank l \<and> list_all blank r"
    by (rule trim_split)
next
  assume "trim b \<noteq> []"
  then show "\<not> blank (hd (trim b))" using trim_hd [of b] by (simp add: isWhiteSpace_blank)
next
  assume "trim b \<noteq> []"
  then show "\<not> blank (last (trim b))" using trim_last [of b] by (simp add: isWhiteSpace_blank)
next
  show "list_all2 (\<lambda>u l. sameLetter u l \<and> \<not> capital l) b (toLowerCase b)"
    by (rule toLowerCase_small)
next
  assume a: "list_all blank wl \<and> list_all blank wr \<and> list_all2 sameLetter b' b"
  then have "\<forall>c \<in> set wl. isWhiteSpace c" "\<forall>c \<in> set wr. isWhiteSpace c"
    by (simp_all add: list_all_iff isWhiteSpace_blank)
  then have "trim (wl @ b' @ wr) = trim b'" by (rule trim_pad)
  moreover from a have "toLowerCase b' = toLowerCase b" by (simp add: sameLetter_toLowerCase)
  ultimately have "toLowerCase (trim (wl @ b' @ wr)) = toLowerCase (trim b)"
    by (simp add: toLowerCase_trim)
  then have "incomingMsgOf \<lparr>Body = Some (wl @ b' @ wr), From = f\<rparr> =
             incomingMsgOf \<lparr>Body = Some b, From = f\<rparr>"
    by (simp add: incomingMsgOf_def)
  moreover have "fromOf \<lparr>Body = Some (wl @ b' @ wr), From = f\<rparr> = fromOf \<lparr>Body = Some b, From = f\<rparr>"
    by (simp add: fromOf_def)
  ultimately show "webhook e \<lparr>Body = Some (wl @ b' @ wr), From = f\<rparr> st =
      webhook e \<lparr>Body = Some b, From = f\<rparr> st"
    by (simp add: webhook_def)
next
  assume k: "fromOf req \<noteq> [] \<and> Map_has (userPreferences st) (fromOf req) \<and> trim x \<noteq> []"
    and b: "Body req = Some (''subscribe'' @ x)"
  obtain rest where m: "incomingMsgOf req = ''subscribe'' @ rest"
    and r: "trim rest = toLowerCase (trim x)"
    using command_argument [of "''subscribe''" x req] k b
    by (auto simp: isWhiteSpace_def toLowerCase_literals)
  have s: "startsWith (incomingMsgOf req) ''subscribe''" by (simp add: m startsWith_def)
  have c: "trim (replace (incomingMsgOf req) ''subscribe'' []) = toLowerCase (trim x)"
    unfolding m using r by (simp only: replace_prefix)
  have "toLowerCase (trim x) \<noteq> []" using k by (simp add: toLowerCase_eq_Nil)
  then show "Map_get (userLocations (dir (webhook e req st))) (fromOf req) =
           Some (toLowerCase (trim x))"
    using k s c by (simp add: webhook_subscribe Let_def replyAndEnd_dir Map_get_set)
next
  assume k: "fromOf req \<noteq> [] \<and> Map_has (userPreferences st) (fromOf req) \<and> trim x \<noteq> []"
    and b: "Body req = Some (''log '' @ x)"
  obtain rest where m: "incomingMsgOf req = ''log '' @ rest"
    and r: "trim rest = toLowerCase (trim x)"
    using command_argument [of "''log ''" x req] k b
    by (auto simp: isWhiteSpace_def toLowerCase_literals)
  have s: "startsWith (incomingMsgOf req) ''log ''" by (simp add: m startsWith_def)
  have c: "trim (drop 4 (incomingMsgOf req)) = toLowerCase (trim x)"
    unfolding m using r by simp
  show "Map_get (userActivities (dir (webhook e req st))) (fromOf req) =
           Some ((case Map_get (userActivities st) (fromOf req) of None \<Rightarrow> [] | Some l \<Rightarrow> l) @
                 [\<lparr>activity = toLowerCase (trim x), date = now e\<rparr>])"
    using k s by (simp add: log_appends c replyAndEnd_dir Map_get_set)
qed

theorem matching_is_normalised_witness:
  "list_all blank [CHR 0x09, CHR 0xA0] \<and> list_all blank '' '' \<and>
   list_all2 sameLetter ''SubScribe MUMBAI'' ''subscribe Mumbai'' \<and>
   webhook exEnv \<lparr>Body = Some ([CHR 0x09, CHR 0xA0] @ ''SubScribe MUMBAI'' @ '' ''),
                  From = Some ''whatsapp:+911234''\<rparr> exKnown =
   webhook exEnv \<lparr>Body = Some ''subscribe Mumbai'', From = Some ''whatsapp:+911234''\<rparr> exKnown \<and>
   Map_get (userLocations (dir (webhook exEnv (exRequest ''subscribe Mumbai'') exKnown))) ''+911234'' =
     Some ''mumbai'' \<and>
   Map_get (userLocations
      (dir (webhook exEnv (exRequest (''subscribe'' @ [CHR '' '', CHR 0xC9, CHR ''V'', CHR ''O'', CHR ''R'', CHR ''A'']))
              exKnown))) ''+911234'' =
     Some [CHR 0xE9, CHR ''v'', CHR ''o'', CHR ''r'', CHR ''a''] \<and>
   Map_get (userActivities (dir (webhook exEnv (exRequest ''log Sprayed Tomatoes '') exKnown))) ''+911234'' =
     Some [\<lparr>activity = ''sprayed tomatoes'', date = ''2025-01-01T08:00:00.000Z''\<rparr>]"
proof -
  have k: "Map_has (userPreferences exKnown) ''+911234''"
    by (simp add: exKnown_def emptyDirectory_def Map_has_def)
  have a: "Map_get (userActivities exKnown) ''+911234'' = None"
    by (simp add: exKnown_def emptyDirectory_def Map_get_def)
  have w: "list_all blank [CHR 0x09, CHR 0xA0]" "list_all blank '' ''"
    by (simp_all add: blank_def)
  have l: "list_all2 sameLetter ''SubScribe MUMBAI'' ''subscribe Mumbai''"
    by (simp add: sameLetter_def capital_def)
  have 1: "webhook exEnv \<lparr>Body = Some ([CHR 0x09, CHR 0xA0] @ ''SubScribe MUMBAI'' @ '' ''),
                  From = Some ''whatsapp:+911234''\<rparr> exKnown =
   webhook exEnv \<lparr>Body = Some ''subscribe Mumbai'', From = Some ''whatsapp:+911234''\<rparr> exKnown"
    using matching_is_normalised [where wl = "[CHR 0x09, CHR 0xA0]" and wr = "'' ''"
        and b' = "''SubScribe MUMBAI''" and b = "''subscribe Mumbai''" and e = exEnv
        and f = "Some ''whatsapp:+911234''" and st = exKnown] w l
    by simp
  have 2: "Map_get (userLocations (dir (webhook exEnv (exRequest ''subscribe Mumbai'') exKnown))) ''+911234'' =
     Some ''mumbai''"
    using matching_is_normalised [where e = exEnv and st = exKnown
        and req = "exRequest ''subscribe Mumbai''" and x = "'' Mumbai''"] k
    by (simp add: exRequest_from)
       (simp add: exRequest_def trim_def isWhiteSpace_def toLowerCase_def lowerChar_def char_of_def bit_0)
  have 3: "Map_get (userLocations
      (dir (webhook exEnv (exRequest (''subscribe'' @ [CHR '' '', CHR 0xC9, CHR ''V'', CHR ''O'', CHR ''R'', CHR ''A'']))
              exKnown))) ''+911234'' =
     Some [CHR 0xE9, CHR ''v'', CHR ''o'', CHR ''r'', CHR ''a'']"
    using matching_is_normalised [where e = exEnv and st = exKnown
        and req = "exRequest (''subscribe'' @ [CHR '' '', CHR 0xC9, CHR ''V'', CHR ''O'', CHR ''R'', CHR ''A''])"
        and x = "[CHR '' '', CHR 0xC9, CHR ''V'', CHR ''O'', CHR ''R'', CHR ''A'']"] k
    by (simp add: exRequest_from)
       (simp add: exRequest_def trim_def isWhiteSpace_def toLowerCase_def lowerChar_def char_of_def bit_0)
  have 4: "Map_get (userActivities (dir (webhook exEnv (exRequest ''log Sprayed Tomatoes '') exKnown))) ''+911234'' =
     Some [\<lparr>activity = ''sprayed tomatoes'', date = ''2025-01-01T08:00:00.000Z''\<rparr>]"
    using matching_is_normalised [where e = exEnv and st = exKnown
        and req = "exRequest ''log Sprayed Tomatoes ''" and x = "''Sprayed Tomatoes ''"] k a
    by (simp add: exRequest_from)
       (simp add: exRequest_def trim_def isWhiteSpace_def toLowerCase_def lowerChar_def char_of_def bit_0 exEnv_def)
  from w l 1 2 3 4 show ?thesis by simp
qed

subsection \<open>The alert sweep\<close>

lemma lookupsBefore_Cons_Suc:
  "lookupsBefore subs (x # locs) (Suc i) = (if fst x \<in> subs then 1 else 0) + lookupsBefore subs locs i"
  by (simp add: lookupsBefore_def)

lemma lookupsBefore_0: "lookupsBefore subs locs 0 = 0"
  by (simp add: lookupsBefore_def)

lemma sweepLoop_sends:
  "MessagesCreate phone out \<in> set (sweepLoop api subs k locs) \<longleftrightarrow>
   (\<exists>i<length locs. \<exists>c w. locs ! i = (phone, c) \<and> phone \<in> subs \<and>
      getWeather (api (k + lookupsBefore subs locs i)) c = Some w \<and> alerts w \<noteq> [] \<and>
      out = Composed [WeatherAlert (city w) (alerts w)])"
proof (induction locs arbitrary: k)
  case Nil
  show ?case by simp
next
  case (Cons x locs)
  obtain p c where x: "x = (p, c)" by (cases x)
  show ?case
  proof (cases "p \<in> subs")
    case False
    then show ?thesis
      using Cons.IH [of k]
      by (auto simp: x Ex_less_Suc2 lookupsBefore_Cons_Suc lookupsBefore_0)
  next
    case True
    then show ?thesis
      using Cons.IH [of "Suc k"]
      by (cases "getWeather (api k) c")
         (auto simp: x Ex_less_Suc2 lookupsBefore_Cons_Suc lookupsBefore_0)
  qed
qed

lemma sweepLoop_requests:
  "weatherRequests (sweepLoop api subs k locs) = map snd (filter (\<lambda>p. fst p \<in> subs) locs)"
  by (induction locs arbitrary: k) (auto split: option.splits)

text \<open>
  Claim C8. In one firing of the sweep, an alert notification goes to a user exactly
  when the user has an entry in \<open>userLocations\<close>, is subscribed, and the weather
  lookup made for that entry succeeded with at least one alert; the notification
  carries these alerts. A weather request is made for every subscribed entry, in the
  order of the entries, whatever the earlier lookups returned.
\<close>

theorem sweep_notifies_alerted_subscribers:
  "(MessagesCreate phone out \<in> set (alertSweep api st) \<longleftrightarrow>
     (\<exists>i<length (userLocations st). \<exists>c w.
        userLocations st ! i = (phone, c) \<and> phone \<in> subscribers st \<and>
        getWeather (api (lookupsBefore (subscribers st) (userLocations st) i)) c = Some w \<and>
        alerts w \<noteq> [] \<and>
        out = Composed [WeatherAlert (city w) (alerts w)])) \<and>
   weatherRequests (alertSweep api st) =
     map snd (filter (\<lambda>p. fst p \<in> subscribers st) (userLocations st))"
  unfolding alertSweep_def
  using sweepLoop_sends [of phone out api "subscribers st" 0 "userLocations st"]
  by (simp add: sweepLoop_requests)

theorem sweep_notifies_alerted_subscribers_witness:
  "getWeather (exSweepApi 0) ''nowhere'' = None \<and>
   alertSweep exSweepApi exTwoUsers =
     [WeatherRequest ''nowhere'', WeatherRequest ''pune'',
      MessagesCreate ''+915678''
        (Composed [WeatherAlert ''Pune'' [HeatAlert 40, WindAlert 15, RainAlert ''light rain'']]),
      Delay 1000] \<and>
   MessagesCreate ''+915678''
     (Composed [WeatherAlert ''Pune'' [HeatAlert 40, WindAlert 15, RainAlert ''light rain'']])
     \<in> set (alertSweep exSweepApi exTwoUsers) \<and>
   MessagesCreate ''+911234''
     (Composed [WeatherAlert ''Pune'' [HeatAlert 40, WindAlert 15, RainAlert ''light rain'']])
     \<notin> set (alertSweep exSweepApi exTwoUsers) \<and>
   weatherRequests (alertSweep exSweepApi exTwoUsers) = [''nowhere'', ''pune'']"
proof -
  have n: "getWeather (exSweepApi 0) ''nowhere'' = None"
    by (simp add: exSweepApi_def exRainyApi_def getWeather_def)
  have p: "getWeather (exSweepApi k) ''pune'' =
     Some \<lparr>city = ''Pune'', temp = 40, description = ''light rain'',
           alerts = [HeatAlert 40, WindAlert 15, RainAlert ''light rain''], wind = 15\<rparr>" for k
    by (simp add: exSweepApi_def ex_getWeather)
  have s: "alertSweep exSweepApi exTwoUsers =
     [WeatherRequest ''nowhere'', WeatherRequest ''pune'',
      MessagesCreate ''+915678''
        (Composed [WeatherAlert ''Pune'' [HeatAlert 40, WindAlert 15, RainAlert ''light rain'']]),
      Delay 1000]"
    by (simp add: alertSweep_def exTwoUsers_def n p)
  have r: "weatherRequests (alertSweep exSweepApi exTwoUsers) = [''nowhere'', ''pune'']"
    using sweep_notifies_alerted_subscribers [of "''+915678''" "Composed []" exSweepApi exTwoUsers]
    by (simp add: exTwoUsers_def)
  show ?thesis using n s r by simp
qed

end
